theory Spec2Isabelle
  imports Complex_Main "HOL-Library.Sublist"
begin

section \<open>JavaScript values\<close>

text \<open>
  The validator and the parser work on untyped values (\<^verbatim>\<open>any\<close>): the result of
  \<^verbatim>\<open>JSON.parse\<close>, or the \<^verbatim>\<open>data\<close> column of a stored harvest result. A value is
  \<^verbatim>\<open>undefined\<close>, \<^verbatim>\<open>null\<close>, a boolean, a number, a string, an array or an object.
  An object is the list of its own properties in insertion order. A number is a finite
  double, which is a rational, or one of the two infinities (\<^verbatim>\<open>JSON.parse("1e999")\<close>);
  \<^verbatim>\<open>NaN\<close> never comes out of JSON. Strings are lists of 8-bit characters: one
  \<open>char\<close> stands for one code unit in the range U+0000 to U+00FF.
\<close>

datatype jsnumber = Num rat | PosInfinity | NegInfinity

datatype jsvalue =
    JUndefined
  | JNull
  | JBool bool
  | JNum jsnumber
  | JStr string
  | JArr "jsvalue list"
  | JObj "(string \<times> jsvalue) list"

text \<open>What a \<^verbatim>\<open>throw\<close> carries: the two built-in errors the code can run into, an
  \<^verbatim>\<open>Error\<close> with a message (what the persistence services throw), or a value that is
  not an \<^verbatim>\<open>Error\<close> instance.\<close>

datatype thrown = SyntaxError | TypeError | Failure string | NonError

text \<open>Truthiness, as \<^verbatim>\<open>if (v)\<close>, \<^verbatim>\<open>!v\<close>, \<^verbatim>\<open>v || d\<close> and \<^verbatim>\<open>Boolean(v)\<close> read it.\<close>

fun truthy :: "jsvalue \<Rightarrow> bool" where
  "truthy JUndefined = False"
| "truthy JNull = False"
| "truthy (JBool b) = b"
| "truthy (JNum (Num q)) = (q \<noteq> 0)"
| "truthy (JNum PosInfinity) = True"
| "truthy (JNum NegInfinity) = True"
| "truthy (JStr s) = (s \<noteq> [])"
| "truthy (JArr xs) = True"
| "truthy (JObj kvs) = True"

text \<open>\<^verbatim>\<open>typeof v === 'object'\<close> holds of \<^verbatim>\<open>null\<close>, arrays and objects.\<close>

fun typeof_object :: "jsvalue \<Rightarrow> bool" where
  "typeof_object JNull = True"
| "typeof_object (JArr xs) = True"
| "typeof_object (JObj kvs) = True"
| "typeof_object v = False"

fun typeof_string :: "jsvalue \<Rightarrow> bool" where
  "typeof_string (JStr s) = True"
| "typeof_string v = False"

fun isArray :: "jsvalue \<Rightarrow> bool" where
  "isArray (JArr xs) = True"
| "isArray v = False"

fun elements :: "jsvalue \<Rightarrow> jsvalue list" where
  "elements (JArr xs) = xs"
| "elements v = []"

text \<open>
  Property read \<^verbatim>\<open>v.k\<close> on a value that is neither \<^verbatim>\<open>null\<close> nor \<^verbatim>\<open>undefined\<close>.
  None of the property names the code reads is defined on a prototype, so the read
  gives the own property of an object and \<^verbatim>\<open>undefined\<close> otherwise. On \<^verbatim>\<open>null\<close> and
  \<^verbatim>\<open>undefined\<close> the read throws a TypeError; every caller that can see such a value
  tests \<open>nullish\<close> first and writes the throw out.
\<close>

fun get :: "jsvalue \<Rightarrow> string \<Rightarrow> jsvalue" where
  "get (JObj kvs) k = (case map_of kvs k of Some v \<Rightarrow> v | None \<Rightarrow> JUndefined)"
| "get v k = JUndefined"

fun nullish :: "jsvalue \<Rightarrow> bool" where
  "nullish JUndefined = True"
| "nullish JNull = True"
| "nullish v = False"

text \<open>\<^verbatim>\<open>a || d\<close>.\<close>

definition or_else :: "jsvalue \<Rightarrow> jsvalue \<Rightarrow> jsvalue" where
  "or_else a d = (if truthy a then a else d)"

text \<open>\<^verbatim>\<open>String.prototype.trim\<close>: white space and line terminators are removed at both
  ends. Among the 8-bit code units these are TAB, LF, VT, FF, CR, SP and NBSP.\<close>

definition is_ws :: "char \<Rightarrow> bool" where
  "is_ws c = (of_char c \<in> {9, 10, 11, 12, 13, 32, 160 :: nat})"

definition trim :: "string \<Rightarrow> string" where
  "trim s = rev (dropWhile is_ws (rev (dropWhile is_ws s)))"

section \<open>The platform\<close>

text \<open>
  Three built-ins of the JavaScript platform decide branches of the code and are not
  code of the repository: \<^verbatim>\<open>JSON.parse\<close> (\<open>None\<close> when it throws a SyntaxError),
  \<^verbatim>\<open>new URL(s)\<close> (\<open>False\<close> when it throws) and \<^verbatim>\<open>new Date(s)\<close> (\<open>True\<close> when the
  date is valid, that is \<^verbatim>\<open>getTime()\<close> is not NaN). They are parameters of the model.
  The clock is read through \<^verbatim>\<open>new Date().getFullYear()\<close> and
  \<^verbatim>\<open>new Date().toISOString()\<close>.
\<close>

record platform =
  JSON_parse :: "string \<Rightarrow> jsvalue option"
  URL_ok :: "string \<Rightarrow> bool"
  Date_ok :: "string \<Rightarrow> bool"

record clock =
  getFullYear :: int
  toISOString :: string

section \<open>JsonImportValidator.extractValidData\<close>

record extracted =
  documents :: "jsvalue list"
  logs :: "jsvalue list"
  obstacles_globaux :: "string list"
  recommandations :: "string option"

definition empty_extracted :: extracted where
  "empty_extracted = \<lparr>documents = [], logs = [], obstacles_globaux = [], recommandations = None\<rparr>"

text \<open>The first filter: \<^verbatim>\<open>doc && typeof doc === 'object' && doc.url_doc\<close>.\<close>

definition has_url_doc :: "jsvalue \<Rightarrow> bool" where
  "has_url_doc doc = (truthy doc \<and> typeof_object doc \<and> truthy (get doc ''url_doc''))"

text \<open>
  The second filter, with the set \<^verbatim>\<open>seenUrls\<close> it updates threaded through.
  \<^verbatim>\<open>doc.url_doc.trim()\<close> throws a TypeError when \<^verbatim>\<open>url_doc\<close> is not a string: no
  other value has a callable \<^verbatim>\<open>trim\<close>.
\<close>

fun dedupe :: "string set \<Rightarrow> jsvalue list \<Rightarrow> thrown + jsvalue list" where
  "dedupe seenUrls [] = Inr []"
| "dedupe seenUrls (doc # rest) =
     (case get doc ''url_doc'' of
        JStr s \<Rightarrow>
          (if trim s \<in> seenUrls then dedupe seenUrls rest
           else (case dedupe (insert (trim s) seenUrls) rest of
                   Inl e \<Rightarrow> Inl e
                 | Inr kept \<Rightarrow> Inr (doc # kept)))
      | _ \<Rightarrow> Inl TypeError)"

definition cleanDocument :: "clock \<Rightarrow> jsvalue \<Rightarrow> jsvalue" where
  "cleanDocument c doc = JObj
     [(''url_doc'', get doc ''url_doc''),
      (''document_name'', or_else (get doc ''document_name'') (JStr '''')),
      (''filename'', or_else (get doc ''filename'') (JStr '''')),
      (''date_edition'', or_else (get doc ''date_edition'') (JStr '''')),
      (''auteurs'', or_else (get doc ''auteurs'') (JStr '''')),
      (''langue'', or_else (get doc ''langue'') (JStr '''')),
      (''resume'', or_else (get doc ''resume'') (JStr '''')),
      (''statut'', or_else (get doc ''statut'') (JStr '''')),
      (''issue_number'', or_else (get doc ''issue_number'') (JStr '''')),
      (''annee'', or_else (get doc ''annee'') (JNum (Num (of_int (getFullYear c))))),
      (''format'', or_else (get doc ''format'') (JStr '''')),
      (''type_document'', or_else (get doc ''type_document'') (JStr '''')),
      (''content_text'', or_else (get doc ''content_text'') (JStr '''')),
      (''pdf_pattern_verified'', JBool (truthy (get doc ''pdf_pattern_verified''))),
      (''notes'', or_else (get doc ''notes'') (JStr '''')),
      (''obstacles'', or_else (get doc ''obstacles'') (JStr ''''))]"

definition cleanLog :: "clock \<Rightarrow> jsvalue \<Rightarrow> jsvalue" where
  "cleanLog c entry = JObj
     [(''level'', or_else (get entry ''level'') (JStr ''info'')),
      (''message'', or_else (get entry ''message'') (JStr (''Log import'' @ [CHR 0xE9] @ '' sans message''))),
      (''timestamp'', or_else (get entry ''timestamp'') (JStr (toISOString c))),
      (''url'', or_else (get entry ''url'') (JStr '''')),
      (''details'', or_else (get entry ''details'') (JObj []))]"

text \<open>
  The body of the \<^verbatim>\<open>try\<close> block. \<^verbatim>\<open>data.documents\<close> is the first property read:
  it throws when the parsed text is \<^verbatim>\<open>null\<close>.
\<close>

definition extractValidData_try :: "platform \<Rightarrow> clock \<Rightarrow> string \<Rightarrow> thrown + extracted" where
  "extractValidData_try P c jsonContent =
     (case JSON_parse P jsonContent of
        None \<Rightarrow> Inl SyntaxError
      | Some data \<Rightarrow>
          if nullish data then Inl TypeError
          else
            (case (if isArray (get data ''documents'')
                   then (case dedupe {} (filter has_url_doc (elements (get data ''documents''))) of
                           Inl e \<Rightarrow> Inl e
                         | Inr kept \<Rightarrow> Inr (map (cleanDocument c) kept))
                   else Inr []) of
               Inl e \<Rightarrow> Inl e
             | Inr cleanDocuments \<Rightarrow>
                 Inr \<lparr>documents = cleanDocuments,
                      logs =
                        (if isArray (get data ''logs'')
                         then map (cleanLog c)
                                (filter (\<lambda>entry. truthy entry \<and> typeof_object entry)
                                   (elements (get data ''logs'')))
                         else []),
                      obstacles_globaux =
                        (if isArray (get data ''obstacles-globaux'')
                         then filter (\<lambda>obstacle. length obstacle > 0)
                                (map (\<lambda>obstacle. case obstacle of JStr s \<Rightarrow> trim s | _ \<Rightarrow> [])
                                   (filter typeof_string (elements (get data ''obstacles-globaux''))))
                         else []),
                      recommandations =
                        (case get data ''recommandations'' of
                           JStr s \<Rightarrow> if trim s \<noteq> [] then Some (trim s) else None
                         | _ \<Rightarrow> None)\<rparr>))"

text \<open>The whole function: the \<^verbatim>\<open>catch\<close> clause takes every exception of the body
  and returns the literal empty result. \<open>Inl\<close> would be an exception that leaves the
  function.\<close>

definition extractValidData :: "platform \<Rightarrow> clock \<Rightarrow> string \<Rightarrow> thrown + extracted" where
  "extractValidData P c jsonContent =
     (case extractValidData_try P c jsonContent of
        Inl e \<Rightarrow> Inr empty_extracted
      | Inr r \<Rightarrow> Inr r)"

section \<open>JsonImportValidator.validateImportJson\<close>

text \<open>
  A finding is a \<^verbatim>\<open>ValidationError\<close>. Its three texts (\<^verbatim>\<open>message\<close>,
  \<^verbatim>\<open>recommendation\<close>, \<^verbatim>\<open>context\<close>) are fixed by the statement that pushes the
  finding and by the values interpolated there, so one constructor of \<open>msg\<close> per
  pushing statement, carrying the interpolated values, stands for all three.
\<close>

datatype severity = SevError | SevWarning

datatype msg =
    RootNotObject
  | DocumentsMissing
  | DocumentsNotArray
  | DocumentsEmpty
  | DuplicateUrl string "nat list"
  | LogsMissing
  | LogsNotArray
  | TooManyDocuments nat
  | JsonSyntax thrown
  | DocNotObject nat
  | UrlDocMissing nat
  | UrlDocNotString nat jsvalue
  | UrlDocEmpty nat
  | UrlInvalid nat string
  | DocumentNameMissing nat
  | FilenameMissing nat
  | DateEditionInvalid nat jsvalue
  | AnneeInvalid nat jsvalue
  | LogNotObject nat
  | LevelMissing nat
  | LevelUnknown nat jsvalue
  | MessageMissing nat
  | MessageNotString nat
  | TimestampInvalid nat jsvalue
  | LogUrlInvalid nat string

record finding =
  field :: string
  message :: msg
  documentIndex :: "nat option"
  logIndex :: "nat option"
  severity :: severity

record summary =
  totalDocuments :: nat
  validDocuments :: nat
  totalLogs :: nat
  validLogs :: nat

record ValidationResult =
  isValid :: bool
  errors :: "finding list"
  warnings :: "finding list"
  summary :: summary

text \<open>The two arrays \<^verbatim>\<open>errors\<close> and \<^verbatim>\<open>warnings\<close>, which the validation functions
  update in place.\<close>

type_synonym findings = "finding list \<times> finding list"

definition push_error :: "string \<Rightarrow> msg \<Rightarrow> nat option \<Rightarrow> nat option \<Rightarrow> findings \<Rightarrow> findings" where
  "push_error f m di li F =
     (fst F @ [\<lparr>field = f, message = m, documentIndex = di, logIndex = li, severity = SevError\<rparr>],
      snd F)"

definition push_warning :: "string \<Rightarrow> msg \<Rightarrow> nat option \<Rightarrow> nat option \<Rightarrow> findings \<Rightarrow> findings" where
  "push_warning f m di li F =
     (fst F,
      snd F @ [\<lparr>field = f, message = m, documentIndex = di, logIndex = li, severity = SevWarning\<rparr>])"

text \<open>
  Interpolating a value into a template literal converts it to a string. For a value
  out of \<^verbatim>\<open>JSON.parse\<close> the conversion throws a TypeError exactly when it reaches an
  object with an own property \<^verbatim>\<open>toString\<close> (which is then not callable, and
  \<^verbatim>\<open>valueOf\<close> gives no primitive); an array converts its elements.
\<close>

fun toString_throws :: "jsvalue \<Rightarrow> bool" where
  "toString_throws (JObj kvs) = (''toString'' \<in> set (map fst kvs))"
| "toString_throws (JArr xs) = list_ex toString_throws xs"
| "toString_throws v = False"

text \<open>Statements run in order; a throw stops the sequence and leaves the arrays as
  they are at that point.\<close>

fun run_steps :: "(findings \<Rightarrow> thrown + findings) list \<Rightarrow> findings \<Rightarrow> thrown option \<times> findings" where
  "run_steps [] F = (None, F)"
| "run_steps (step # steps) F =
     (case step F of Inl e \<Rightarrow> (Some e, F) | Inr F' \<Rightarrow> run_steps steps F')"

definition isValidDate :: "platform \<Rightarrow> jsvalue \<Rightarrow> bool" where
  "isValidDate P dateString =
     (case dateString of
        JStr s \<Rightarrow> s \<noteq> [] \<and> Date_ok P s \<and> length s \<ge> 8
      | _ \<Rightarrow> False)"

subsection \<open>validateDocument\<close>

text \<open>The chain of tests on \<^verbatim>\<open>url_doc\<close>: the new \<^verbatim>\<open>isValid\<close> and the arrays.\<close>

definition check_url_doc :: "platform \<Rightarrow> jsvalue \<Rightarrow> nat \<Rightarrow> findings \<Rightarrow> bool \<times> findings" where
  "check_url_doc P doc index F =
     (if \<not> truthy (get doc ''url_doc'')
      then (False, push_error ''url_doc'' (UrlDocMissing index) (Some index) None F)
      else (case get doc ''url_doc'' of
              JStr s \<Rightarrow>
                if trim s = []
                then (False, push_error ''url_doc'' (UrlDocEmpty index) (Some index) None F)
                else if URL_ok P s then (True, F)
                else (False, push_error ''url_doc'' (UrlInvalid index s) (Some index) None F)
            | v \<Rightarrow> (False, push_error ''url_doc'' (UrlDocNotString index v) (Some index) None F)))"

text \<open>
  \<^verbatim>\<open>if (!doc.document_name || doc.document_name.trim() === '')\<close>, and the same for
  \<^verbatim>\<open>filename\<close>: on a truthy value that is not a string, \<^verbatim>\<open>trim\<close> is not a function
  and the call throws a TypeError.
\<close>

definition check_name :: "string \<Rightarrow> msg \<Rightarrow> jsvalue \<Rightarrow> nat \<Rightarrow> findings \<Rightarrow> thrown + findings" where
  "check_name key m doc index F =
     (if \<not> truthy (get doc key) then Inr (push_warning key m (Some index) None F)
      else (case get doc key of
              JStr s \<Rightarrow> if trim s = [] then Inr (push_warning key m (Some index) None F) else Inr F
            | _ \<Rightarrow> Inl TypeError))"

definition check_date_edition :: "platform \<Rightarrow> jsvalue \<Rightarrow> nat \<Rightarrow> findings \<Rightarrow> thrown + findings" where
  "check_date_edition P doc index F =
     (if truthy (get doc ''date_edition'') \<and> \<not> isValidDate P (get doc ''date_edition'')
      then (if toString_throws (get doc ''date_edition'') then Inl TypeError
            else Inr (push_warning ''date_edition''
                        (DateEditionInvalid index (get doc ''date_edition'')) (Some index) None F))
      else Inr F)"

text \<open>\<^verbatim>\<open>!Number.isInteger(a) || a < 1900 || a > new Date().getFullYear() + 1\<close>.\<close>

definition annee_out_of_range :: "clock \<Rightarrow> jsvalue \<Rightarrow> bool" where
  "annee_out_of_range c a =
     (case a of
        JNum (Num q) \<Rightarrow> of_int \<lfloor>q\<rfloor> \<noteq> q \<or> q < 1900 \<or> q > of_int (getFullYear c + 1)
      | _ \<Rightarrow> True)"

definition check_annee :: "clock \<Rightarrow> jsvalue \<Rightarrow> nat \<Rightarrow> findings \<Rightarrow> thrown + findings" where
  "check_annee c doc index F =
     (if truthy (get doc ''annee'') \<and> annee_out_of_range c (get doc ''annee'')
      then (if toString_throws (get doc ''annee'') then Inl TypeError
            else Inr (push_warning ''annee'' (AnneeInvalid index (get doc ''annee'')) (Some index) None F))
      else Inr F)"

text \<open>The result is the returned \<^verbatim>\<open>isValid\<close>, or the exception that leaves the
  function, together with the arrays.\<close>

definition validateDocument ::
  "platform \<Rightarrow> clock \<Rightarrow> jsvalue \<Rightarrow> nat \<Rightarrow> findings \<Rightarrow> (thrown + bool) \<times> findings" where
  "validateDocument P c doc index F =
     (if \<not> truthy doc \<or> \<not> typeof_object doc
      then (Inr False, push_error ''document'' (DocNotObject index) (Some index) None F)
      else (case run_steps
                   [check_name ''document_name'' (DocumentNameMissing index) doc index,
                    check_name ''filename'' (FilenameMissing index) doc index,
                    check_date_edition P doc index,
                    check_annee c doc index]
                   (snd (check_url_doc P doc index F)) of
              (Some e, F') \<Rightarrow> (Inl e, F')
            | (None, F') \<Rightarrow> (Inr (fst (check_url_doc P doc index F)), F')))"

subsection \<open>validateLog\<close>

definition check_level :: "jsvalue \<Rightarrow> nat \<Rightarrow> findings \<Rightarrow> thrown + findings" where
  "check_level entry index F =
     (if \<not> truthy (get entry ''level'')
      then Inr (push_warning ''level'' (LevelMissing index) None (Some index) F)
      else if get entry ''level'' \<notin> {JStr ''error'', JStr ''warning'', JStr ''info''}
      then (if toString_throws (get entry ''level'') then Inl TypeError
            else Inr (push_warning ''level'' (LevelUnknown index (get entry ''level'')) None (Some index) F))
      else Inr F)"

definition check_message :: "jsvalue \<Rightarrow> nat \<Rightarrow> findings \<Rightarrow> thrown + findings" where
  "check_message entry index F =
     (if \<not> truthy (get entry ''message'')
      then Inr (push_warning ''message'' (MessageMissing index) None (Some index) F)
      else if \<not> typeof_string (get entry ''message'')
      then Inr (push_warning ''message'' (MessageNotString index) None (Some index) F)
      else Inr F)"

definition check_timestamp :: "platform \<Rightarrow> jsvalue \<Rightarrow> nat \<Rightarrow> findings \<Rightarrow> thrown + findings" where
  "check_timestamp P entry index F =
     (if truthy (get entry ''timestamp'') \<and> \<not> isValidDate P (get entry ''timestamp'')
      then (if toString_throws (get entry ''timestamp'') then Inl TypeError
            else Inr (push_warning ''timestamp''
                        (TimestampInvalid index (get entry ''timestamp'')) None (Some index) F))
      else Inr F)"

definition check_log_url :: "platform \<Rightarrow> jsvalue \<Rightarrow> nat \<Rightarrow> findings \<Rightarrow> thrown + findings" where
  "check_log_url P entry index F =
     (case get entry ''url'' of
        JStr s \<Rightarrow>
          if s \<noteq> [] \<and> trim s \<noteq> [] \<and> \<not> URL_ok P s
          then Inr (push_warning ''url'' (LogUrlInvalid index s) None (Some index) F)
          else Inr F
      | _ \<Rightarrow> Inr F)"

definition validateLog ::
  "platform \<Rightarrow> jsvalue \<Rightarrow> nat \<Rightarrow> findings \<Rightarrow> (thrown + bool) \<times> findings" where
  "validateLog P entry index F =
     (if \<not> truthy entry \<or> \<not> typeof_object entry
      then (Inr False, push_error ''log'' (LogNotObject index) None (Some index) F)
      else (case run_steps
                   [check_level entry index,
                    check_message entry index,
                    check_timestamp P entry index,
                    check_log_url P entry index] F of
              (Some e, F') \<Rightarrow> (Inl e, F')
            | (None, F') \<Rightarrow> (Inr True, F')))"

subsection \<open>validateImportJson\<close>

text \<open>
  \<^verbatim>\<open>urlDocMap\<close> is a \<^verbatim>\<open>Map\<close> from a trimmed URL to the indices where it occurs; it
  iterates in the order in which the keys were first set.
\<close>

fun record_url :: "string \<Rightarrow> nat \<Rightarrow> (string \<times> nat list) list \<Rightarrow> (string \<times> nat list) list" where
  "record_url url index [] = [(url, [index])]"
| "record_url url index ((k, indices) # m) =
     (if k = url then (k, indices @ [index]) # m else (k, indices) # record_url url index m)"

fun collect_urls :: "jsvalue list \<Rightarrow> nat \<Rightarrow> (string \<times> nat list) list \<Rightarrow> (string \<times> nat list) list" where
  "collect_urls [] index m = m"
| "collect_urls (doc # rest) index m =
     collect_urls rest (index + 1)
       (case get doc ''url_doc'' of
          JStr s \<Rightarrow> if truthy doc \<and> s \<noteq> [] \<and> trim s \<noteq> [] then record_url (trim s) index m else m
        | _ \<Rightarrow> m)"

fun report_duplicates :: "(string \<times> nat list) list \<Rightarrow> findings \<Rightarrow> findings" where
  "report_duplicates [] F = F"
| "report_duplicates ((url, indices) # m) F =
     report_duplicates m
       (if length indices > 1 then push_error ''url_doc'' (DuplicateUrl url indices) None None F else F)"

text \<open>The two \<^verbatim>\<open>forEach\<close> loops over the entries; the third component is the counter
  \<^verbatim>\<open>summary.validDocuments\<close> (\<^verbatim>\<open>summary.validLogs\<close>).\<close>

fun validate_documents ::
  "platform \<Rightarrow> clock \<Rightarrow> jsvalue list \<Rightarrow> nat \<Rightarrow> findings \<Rightarrow> nat \<Rightarrow> thrown option \<times> findings \<times> nat" where
  "validate_documents P c [] index F n = (None, F, n)"
| "validate_documents P c (doc # rest) index F n =
     (case validateDocument P c doc index F of
        (Inl e, F') \<Rightarrow> (Some e, F', n)
      | (Inr ok, F') \<Rightarrow> validate_documents P c rest (index + 1) F' (if ok then n + 1 else n))"

fun validate_logs ::
  "platform \<Rightarrow> jsvalue list \<Rightarrow> nat \<Rightarrow> findings \<Rightarrow> nat \<Rightarrow> thrown option \<times> findings \<times> nat" where
  "validate_logs P [] index F n = (None, F, n)"
| "validate_logs P (entry # rest) index F n =
     (case validateLog P entry index F of
        (Inl e, F') \<Rightarrow> (Some e, F', n)
      | (Inr ok, F') \<Rightarrow> validate_logs P rest (index + 1) F' (if ok then n + 1 else n))"

definition summary0 :: summary where
  "summary0 = \<lparr>totalDocuments = 0, validDocuments = 0, totalLogs = 0, validLogs = 0\<rparr>"

text \<open>The statement on \<^verbatim>\<open>data.documents\<close>.\<close>

definition documents_part ::
  "platform \<Rightarrow> clock \<Rightarrow> jsvalue \<Rightarrow> findings \<Rightarrow> summary \<Rightarrow> thrown option \<times> findings \<times> summary" where
  "documents_part P c data F S =
     (if \<not> truthy (get data ''documents'')
      then (None, push_error ''documents'' DocumentsMissing None None F, S)
      else if \<not> isArray (get data ''documents'')
      then (None, push_error ''documents'' DocumentsNotArray None None F, S)
      else
        (let docs = elements (get data ''documents'');
             S1 = S\<lparr>totalDocuments := length docs\<rparr>;
             F1 = (if length docs = 0 then push_warning ''documents'' DocumentsEmpty None None F else F);
             F2 = report_duplicates (collect_urls docs 0 []) F1
         in (case validate_documents P c docs 0 F2 (validDocuments S1) of
               (t, F3, n) \<Rightarrow> (t, F3, S1\<lparr>validDocuments := n\<rparr>))))"

text \<open>The statement on \<^verbatim>\<open>data.logs\<close>.\<close>

definition logs_part ::
  "platform \<Rightarrow> jsvalue \<Rightarrow> findings \<Rightarrow> summary \<Rightarrow> thrown option \<times> findings \<times> summary" where
  "logs_part P data F S =
     (if \<not> truthy (get data ''logs'')
      then (None, push_warning ''logs'' LogsMissing None None F, S)
      else if \<not> isArray (get data ''logs'')
      then (None, push_error ''logs'' LogsNotArray None None F, S)
      else
        (let entries = elements (get data ''logs'');
             S1 = S\<lparr>totalLogs := length entries\<rparr>
         in (case validate_logs P entries 0 F (validLogs S1) of
               (t, F1, n) \<Rightarrow> (t, F1, S1\<lparr>validLogs := n\<rparr>))))"

definition global_checks :: "findings \<Rightarrow> summary \<Rightarrow> findings" where
  "global_checks F S =
     (if totalDocuments S > 1000
      then push_warning ''documents'' (TooManyDocuments (totalDocuments S)) None None F
      else F)"

text \<open>The \<^verbatim>\<open>catch\<close> clause and the final \<^verbatim>\<open>return\<close>.\<close>

definition catch_parseError :: "thrown \<Rightarrow> findings \<Rightarrow> findings" where
  "catch_parseError e F = push_error ''json'' (JsonSyntax e) None None F"

definition final_result :: "findings \<Rightarrow> summary \<Rightarrow> ValidationResult" where
  "final_result F S =
     \<lparr>isValid = (length (fst F) = 0), errors = fst F, warnings = snd F, summary = S\<rparr>"

definition validateImportJson :: "platform \<Rightarrow> clock \<Rightarrow> string \<Rightarrow> ValidationResult" where
  "validateImportJson P c jsonContent =
     (case JSON_parse P jsonContent of
        None \<Rightarrow> final_result (catch_parseError SyntaxError ([], [])) summary0
      | Some data \<Rightarrow>
          if \<not> truthy data \<or> \<not> typeof_object data
          then \<lparr>isValid = False,
                errors = fst (push_error ''root'' RootNotObject None None ([], [])),
                warnings = [], summary = summary0\<rparr>
          else
            (case documents_part P c data ([], []) summary0 of
               (Some e, F1, S1) \<Rightarrow> final_result (catch_parseError e F1) S1
             | (None, F1, S1) \<Rightarrow>
                 (case logs_part P data F1 S1 of
                    (Some e, F2, S2) \<Rightarrow> final_result (catch_parseError e F2) S2
                  | (None, F2, S2) \<Rightarrow> final_result (global_checks F2 S2) S2)))"

section \<open>HarvestDataParser\<close>

text \<open>
  The texts that end up in the string arrays \<^verbatim>\<open>errors\<close> and \<^verbatim>\<open>warnings\<close> of the
  parser and of the importer, one constructor per statement that builds the text, with
  the interpolated values. \<open>ThrownMessage e\<close> is the message of a caught exception
  (\<^verbatim>\<open>e instanceof Error ? e.message : 'Erreur inconnue'\<close>).
\<close>

datatype errtext =
    InvalidHarvestData
  | ThrownMessage thrown
  | ParsingError
  | NoDocumentsArray
  | InvalidDocumentEntry nat thrown
  | NoValidDocument
  | InvalidDocumentUrl nat jsvalue
  | DocumentImportError nat jsvalue thrown
  | SiteUpdateError thrown
  | NoValidDocumentInJson
  | ValidationMessage msg

text \<open>\<^verbatim>\<open>ParsedHarvestData\<close> has the four fields of the extractor's result, with the same
  types at run time.\<close>

type_synonym ParsedHarvestData = extracted

record ParseResult =
  parse_success :: bool
  parse_data :: "ParsedHarvestData option"
  parse_error :: "errtext option"
  parse_warnings :: "errtext list"

text \<open>\<^verbatim>\<open>parseInt(s, 10)\<close>: leading white space, a sign, then the longest run of
  decimal digits; \<open>None\<close> is NaN. The value is exact here, where JavaScript rounds
  to a double; \<open>parseYear\<close> keeps it only between 1900 and next year, where both agree.\<close>

definition is_digit :: "char \<Rightarrow> bool" where
  "is_digit ch = (48 \<le> (of_char ch :: nat) \<and> (of_char ch :: nat) \<le> 57)"

definition digits_value :: "string \<Rightarrow> int" where
  "digits_value ds = foldl (\<lambda>acc ch. acc * 10 + (int (of_char ch) - 48)) 0 ds"

definition parseInt10 :: "string \<Rightarrow> int option" where
  "parseInt10 s =
     (let t = dropWhile is_ws s;
          negative = (case t of [] \<Rightarrow> False | ch # r \<Rightarrow> ch = CHR ''-'');
          u = (case t of [] \<Rightarrow> [] | ch # r \<Rightarrow> if ch = CHR ''-'' \<or> ch = CHR ''+'' then r else t);
          ds = takeWhile is_digit u
      in if ds = [] then None
         else Some (if negative then - digits_value ds else digits_value ds))"

definition parseYear :: "clock \<Rightarrow> jsvalue \<Rightarrow> jsvalue" where
  "parseYear c yearValue =
     (case yearValue of
        JNum (Num q) \<Rightarrow>
          if q \<ge> 1900 \<and> q \<le> of_int (getFullYear c + 1) then JNum (Num q) else JNull
      | JNum PosInfinity \<Rightarrow> JNull
      | JNum NegInfinity \<Rightarrow> JNull
      | JStr s \<Rightarrow>
          (case parseInt10 s of
             None \<Rightarrow> JNull
           | Some parsed \<Rightarrow>
               if parsed \<ge> 1900 \<and> parsed \<le> getFullYear c + 1 then JNum (Num (of_int parsed))
               else JNull)
      | _ \<Rightarrow> JNull)"

text \<open>\<open>Inl\<close> is the thrown \<^verbatim>\<open>Error('Document invalide')\<close>, \<open>Inr None\<close> the returned
  \<^verbatim>\<open>null\<close> of an excluded entry.\<close>

definition parseDocument :: "clock \<Rightarrow> jsvalue \<Rightarrow> nat \<Rightarrow> thrown + jsvalue option" where
  "parseDocument c doc index =
     (if \<not> truthy doc \<or> \<not> typeof_object doc then Inl (Failure ''Document invalide'')
      else (case get doc ''url_doc'' of
              JStr s \<Rightarrow>
                if s = [] then Inr None
                else if trim s = [] then Inr None
                else Inr (Some (JObj
                  [(''url_doc'', JStr (trim s)),
                   (''document_name'', or_else (get doc ''document_name'') (JStr '''')),
                   (''filename'', or_else (get doc ''filename'') (JStr '''')),
                   (''date_edition'', or_else (get doc ''date_edition'') (JStr '''')),
                   (''auteurs'', or_else (get doc ''auteurs'') (JStr '''')),
                   (''langue'', or_else (get doc ''langue'') (JStr '''')),
                   (''resume'', or_else (get doc ''resume'') (JStr '''')),
                   (''statut'', or_else (get doc ''statut'') (JStr '''')),
                   (''issue_number'', or_else (get doc ''issue_number'') JNull),
                   (''annee'', or_else (parseYear c (get doc ''annee'')) (JNum (Num 0))),
                   (''format'', or_else (get doc ''format'') (JStr '''')),
                   (''type_document'', or_else (get doc ''type_document'') (JStr '''')),
                   (''contient_texte'', or_else (get doc ''contient_texte'') (JStr '''')),
                   (''pattern_verified'', JBool (truthy (get doc ''pattern_verified''))),
                   (''notes'', or_else (get doc ''notes'') (JStr '''')),
                   (''obstacles'', or_else (get doc ''obstacles'') JNull),
                   (''source_page'', or_else (get doc ''source_page'') (JStr ''''))]))
            | _ \<Rightarrow> Inr None))"

text \<open>The \<^verbatim>\<open>forEach\<close> over the documents, each entry in its own \<^verbatim>\<open>try\<close>: the kept
  documents and the local warnings.\<close>

fun parse_documents ::
  "clock \<Rightarrow> jsvalue list \<Rightarrow> nat \<Rightarrow> jsvalue list \<times> errtext list \<Rightarrow> jsvalue list \<times> errtext list" where
  "parse_documents c [] index acc = acc"
| "parse_documents c (doc # rest) index acc =
     parse_documents c rest (index + 1)
       (case parseDocument c doc index of
          Inl e \<Rightarrow> (fst acc, snd acc @ [InvalidDocumentEntry index e])
        | Inr None \<Rightarrow> acc
        | Inr (Some parsedDoc) \<Rightarrow> (fst acc @ [parsedDoc], snd acc))"

text \<open>The \<^verbatim>\<open>forEach\<close> over the logs: \<^verbatim>\<open>log.message\<close> throws a TypeError on a
  \<^verbatim>\<open>null\<close> entry, and nothing catches it inside the loop.\<close>

fun parse_logs :: "jsvalue list \<Rightarrow> jsvalue list \<Rightarrow> thrown + jsvalue list" where
  "parse_logs [] acc = Inr acc"
| "parse_logs (entry # rest) acc =
     (if nullish entry then Inl TypeError
      else parse_logs rest
             (if truthy (get entry ''message'')
              then acc @ [JObj [(''level'', or_else (get entry ''level'') (JStr ''info'')),
                               (''message'', get entry ''message''),
                               (''details'', or_else (get entry ''details'') (JObj []))]]
              else acc))"

text \<open>The four parts of \<open>parseStructuredData\<close>, in the order of the source: the
  documents with the local warnings, the global obstacles, the recommendations, the
  logs. Only the last can throw.\<close>

definition parsed_documents :: "clock \<Rightarrow> jsvalue \<Rightarrow> jsvalue list \<times> errtext list" where
  "parsed_documents c structuredData =
     (if truthy (get structuredData ''documents'') \<and> isArray (get structuredData ''documents'')
      then parse_documents c (elements (get structuredData ''documents'')) 0 ([], [])
      else ([], [NoDocumentsArray]))"

definition parsed_obstacles :: "jsvalue \<Rightarrow> string list" where
  "parsed_obstacles structuredData =
     (if truthy (get structuredData ''obstacles-globaux'')
           \<and> isArray (get structuredData ''obstacles-globaux'')
      then filter (\<lambda>obstacle. length obstacle > 0)
             (map (\<lambda>obstacle. case obstacle of JStr s \<Rightarrow> trim s | _ \<Rightarrow> [])
                (filter typeof_string (elements (get structuredData ''obstacles-globaux''))))
      else [])"

definition parsed_recommandations :: "jsvalue \<Rightarrow> string option" where
  "parsed_recommandations structuredData =
     (case get structuredData ''recommandations'' of
        JStr s \<Rightarrow> if s \<noteq> [] then Some (trim s) else None
      | _ \<Rightarrow> None)"

definition parsed_logs :: "jsvalue \<Rightarrow> thrown + jsvalue list" where
  "parsed_logs structuredData =
     (if truthy (get structuredData ''logs'') \<and> isArray (get structuredData ''logs'')
      then parse_logs (elements (get structuredData ''logs'')) []
      else Inr [])"

definition parseStructuredData :: "clock \<Rightarrow> jsvalue \<Rightarrow> ParseResult" where
  "parseStructuredData c structuredData =
     (case parsed_logs structuredData of
        Inl e \<Rightarrow>
          \<lparr>parse_success = False, parse_data = None,
           parse_error = Some (ThrownMessage e),
           parse_warnings = snd (parsed_documents c structuredData)\<rparr>
      | Inr ls \<Rightarrow>
          \<lparr>parse_success = True,
           parse_data = Some \<lparr>documents = fst (parsed_documents c structuredData), logs = ls,
                              obstacles_globaux = parsed_obstacles structuredData,
                              recommandations = parsed_recommandations structuredData\<rparr>,
           parse_error = None,
           parse_warnings = snd (parsed_documents c structuredData)\<rparr>)"

text \<open>On success the function returns its own, empty, \<^verbatim>\<open>warnings\<close> array, not the one
  of \<open>parseStructuredData\<close>.\<close>

definition parseOpenAIResponse :: "clock \<Rightarrow> jsvalue \<Rightarrow> ParseResult" where
  "parseOpenAIResponse c harvestResultData =
     (if \<not> truthy harvestResultData \<or> \<not> typeof_object harvestResultData
      then \<lparr>parse_success = False, parse_data = None,
            parse_error = Some InvalidHarvestData, parse_warnings = []\<rparr>
      else (let parsedData = parseStructuredData c harvestResultData
            in if \<not> parse_success parsedData then parsedData
               else \<lparr>parse_success = True, parse_data = parse_data parsedData,
                     parse_error = None, parse_warnings = []\<rparr>))"

text \<open>The errors of \<open>validateParsedData\<close>: \<^verbatim>\<open>new URL(doc.url_doc)\<close> on every document.
  \<^verbatim>\<open>ParsedDocument.url_doc\<close> is declared a string and the parser only produces
  strings; any other value is outside the function's input type and is reported here
  as an invalid URL.\<close>

fun invalid_urls :: "platform \<Rightarrow> jsvalue list \<Rightarrow> nat \<Rightarrow> errtext list" where
  "invalid_urls P [] index = []"
| "invalid_urls P (doc # rest) index =
     (case get doc ''url_doc'' of
        JStr s \<Rightarrow> if URL_ok P s then [] else [InvalidDocumentUrl index (JStr s)]
      | v \<Rightarrow> [InvalidDocumentUrl index v])
     @ invalid_urls P rest (index + 1)"

definition validateParsedData :: "platform \<Rightarrow> ParsedHarvestData \<Rightarrow> bool \<times> errtext list" where
  "validateParsedData P data =
     (let errs = (if length (documents data) = 0 then [NoValidDocument] else [])
                 @ invalid_urls P (documents data) 0
      in (length errs = 0, errs))"

section \<open>HarvestDataImporter\<close>

datatype phase = Parsing | Documents | SiteUpdate | Logs | Completed | ErrorPhase

text \<open>The \<^verbatim>\<open>message\<close> of a progress snapshot, one constructor per call of
  \<^verbatim>\<open>notifyProgress\<close>.\<close>

datatype progress_msg =
    MsgParsing
  | MsgParseError "errtext option"
  | MsgValidationFailed "errtext option"
  | MsgImportDocuments
  | MsgImportDocument jsvalue
  | MsgSiteUpdate
  | MsgLogs
  | MsgCompleted nat
  | MsgCriticalError errtext

text \<open>\<^verbatim>\<open>progress\<close> is computed exactly here; the source computes it in doubles.\<close>

record ImportProgress =
  phase :: phase
  progress_message :: progress_msg
  progress :: rat
  documentsProcessed :: nat
  progress_totalDocuments :: nat
  progress_errors :: "errtext list"
  progress_warnings :: "errtext list"

record ImportResult =
  success :: bool
  documentsImported :: nat
  obstaclesUpdated :: bool
  recommandationsUpdated :: bool
  logsImported :: nat
  result_errors :: "errtext list"
  result_warnings :: "errtext list"

text \<open>
  The persistence collaborator. Each call either resolves (\<open>None\<close>) or rejects with
  a thrown value: \<^verbatim>\<open>HarvestResultService.createResult\<close> for the document at an index,
  \<^verbatim>\<open>DataSourceService.updateDataSource\<close>, and \<^verbatim>\<open>HarvestLogService.createLog\<close> for the
  log at a position. The last \<^verbatim>\<open>createLog\<close>, which records the end of the import, has
  its exception caught and ignored and changes nothing in the result.
\<close>

record persistence =
  createResult :: "nat \<Rightarrow> thrown option"
  updateDataSource :: "thrown option"
  createLog :: "nat \<Rightarrow> thrown option"

text \<open>
  The state of the documents loop: the counter \<^verbatim>\<open>documentsImported\<close>, the array
  \<^verbatim>\<open>result.errors\<close>, and the snapshots passed to \<^verbatim>\<open>notifyProgress\<close> so far. The
  snapshots are what a registered observer receives; the observer is taken not to throw.
\<close>

type_synonym loop_state = "nat \<times> errtext list \<times> ImportProgress list"

text \<open>
  The \<^verbatim>\<open>try\<close> block of one iteration. \<open>Inr None\<close> is the \<^verbatim>\<open>continue\<close>; \<open>Inr (Some
  snapshot)\<close> is a document that was persisted and reported; \<open>Inl (e, persisted)\<close> is
  an exception, thrown by \<^verbatim>\<open>trim\<close>, by the persistence call, or, after the counter was
  incremented (\<open>persisted\<close>), by the template literal of the progress message.
\<close>

definition import_document_try ::
  "persistence \<Rightarrow> jsvalue \<Rightarrow> nat \<Rightarrow> nat \<Rightarrow> errtext list \<Rightarrow> (thrown \<times> bool) + ImportProgress option" where
  "import_document_try E doc i ntotal ws =
     (if \<not> truthy (get doc ''url_doc'') then Inr None
      else (case get doc ''url_doc'' of
              JStr s \<Rightarrow>
                if trim s = [] then Inr None
                else (case createResult E i of
                        Some e \<Rightarrow> Inl (e, False)
                      | None \<Rightarrow>
                          if toString_throws (get doc ''document_name'') then Inl (TypeError, True)
                          else Inr (Some
                            \<lparr>phase = Documents,
                             progress_message = MsgImportDocument (get doc ''document_name''),
                             progress = 30 + (of_nat (i + 1) / of_nat ntotal) * 40,
                             documentsProcessed = i + 1,
                             progress_totalDocuments = ntotal,
                             progress_errors = [],
                             progress_warnings = ws\<rparr>))
            | _ \<Rightarrow> Inl (TypeError, False)))"

text \<open>\<^verbatim>\<open>doc.document_name || doc.filename || doc.url_doc || 'Document inconnu'\<close>.\<close>

definition docName :: "jsvalue \<Rightarrow> jsvalue" where
  "docName doc =
     or_else (get doc ''document_name'')
       (or_else (get doc ''filename'')
          (or_else (get doc ''url_doc'') (JStr ''Document inconnu'')))"

text \<open>
  The \<^verbatim>\<open>for\<close> loop. The \<^verbatim>\<open>catch\<close> clause of an iteration interpolates the document's
  name into the error text; when that conversion throws, the exception leaves the loop
  (\<open>Some\<close> in the first component).
\<close>

fun import_documents ::
  "persistence \<Rightarrow> jsvalue list \<Rightarrow> nat \<Rightarrow> nat \<Rightarrow> errtext list \<Rightarrow> loop_state \<Rightarrow> thrown option \<times> loop_state" where
  "import_documents E [] i ntotal ws st = (None, st)"
| "import_documents E (doc # rest) i ntotal ws (n, errs, trace) =
     (case import_document_try E doc i ntotal ws of
        Inr None \<Rightarrow> import_documents E rest (i + 1) ntotal ws (n, errs, trace)
      | Inr (Some snapshot) \<Rightarrow>
          import_documents E rest (i + 1) ntotal ws (n + 1, errs, trace @ [snapshot])
      | Inl (docError, persisted) \<Rightarrow>
          if toString_throws (docName doc)
          then (Some TypeError, (if persisted then n + 1 else n, errs, trace))
          else import_documents E rest (i + 1) ntotal ws
                 (if persisted then n + 1 else n,
                  errs @ [DocumentImportError i (docName doc) docError], trace))"

text \<open>The loop over the logs: the number of logs created.\<close>

fun import_logs :: "persistence \<Rightarrow> jsvalue list \<Rightarrow> nat \<Rightarrow> nat \<Rightarrow> nat" where
  "import_logs E [] k n = n"
| "import_logs E (entry # rest) k n =
     import_logs E rest (k + 1) (case createLog E k of None \<Rightarrow> n + 1 | Some e \<Rightarrow> n)"

definition result0 :: ImportResult where
  "result0 = \<lparr>success = False, documentsImported = 0, obstaclesUpdated = False,
              recommandationsUpdated = False, logsImported = 0,
              result_errors = [], result_warnings = []\<rparr>"

definition snapshot ::
  "phase \<Rightarrow> progress_msg \<Rightarrow> rat \<Rightarrow> nat \<Rightarrow> nat \<Rightarrow> errtext list \<Rightarrow> errtext list \<Rightarrow> ImportProgress" where
  "snapshot ph m p processed ntotal es ws =
     \<lparr>phase = ph, progress_message = m, progress = p, documentsProcessed = processed,
      progress_totalDocuments = ntotal, progress_errors = es, progress_warnings = ws\<rparr>"

text \<open>Phases 3 to 5, after the documents loop has ended normally with \<open>n\<close> documents
  imported, the errors \<open>errs\<close> and the snapshots \<open>trace\<close>.\<close>

definition finish_import ::
  "persistence \<Rightarrow> ParsedHarvestData \<Rightarrow> errtext list \<Rightarrow> loop_state \<Rightarrow> ImportResult \<times> ImportProgress list" where
  "finish_import E parsedData ws st =
     (case st of (n, errs, trace) \<Rightarrow>
        (let ntotal = length (documents parsedData);
             obstaclesUpd = (length (obstacles_globaux parsedData) > 0);
             recsUpd = (case recommandations parsedData of Some s \<Rightarrow> s \<noteq> [] | None \<Rightarrow> False);
             errs1 = (if obstaclesUpd \<or> recsUpd
                      then (case updateDataSource E of
                              None \<Rightarrow> errs
                            | Some updateError \<Rightarrow> errs @ [SiteUpdateError updateError])
                      else errs);
             nlogs = import_logs E (logs parsedData) 0 0
         in (\<lparr>success = (length errs1 = 0 \<or> n > 0),
              documentsImported = n,
              obstaclesUpdated = obstaclesUpd,
              recommandationsUpdated = recsUpd,
              logsImported = nlogs,
              result_errors = errs1,
              result_warnings = ws\<rparr>,
             trace
             @ [snapshot SiteUpdate MsgSiteUpdate 75 ntotal ntotal [] ws,
                snapshot Logs MsgLogs 90 ntotal ntotal [] ws,
                snapshot Completed (MsgCompleted n) 100 ntotal ntotal errs1 ws])))"

text \<open>The \<^verbatim>\<open>catch\<close> clause of the whole function: \<^verbatim>\<open>result.documentsImported\<close> is only
  assigned after the loop, so it is still 0 here.\<close>

definition critical_error ::
  "thrown \<Rightarrow> errtext list \<Rightarrow> errtext list \<Rightarrow> ImportProgress list \<Rightarrow> ImportResult \<times> ImportProgress list" where
  "critical_error error errs ws trace =
     (result0\<lparr>result_errors := errs @ [ThrownMessage error], result_warnings := ws\<rparr>,
      trace @ [snapshot ErrorPhase (MsgCriticalError (ThrownMessage error)) 0 0 0
                 (errs @ [ThrownMessage error]) ws])"

definition importHarvestData ::
  "platform \<Rightarrow> clock \<Rightarrow> persistence \<Rightarrow> jsvalue \<Rightarrow> ImportResult \<times> ImportProgress list" where
  "importHarvestData P c E harvestResult_data =
     (let t0 = [snapshot Parsing MsgParsing 10 0 0 [] []];
          parseResult = parseOpenAIResponse c harvestResult_data
      in if \<not> parse_success parseResult
         then (let errs = [case parse_error parseResult of Some e \<Rightarrow> e | None \<Rightarrow> ParsingError]
               in (result0\<lparr>result_errors := errs\<rparr>,
                   t0 @ [snapshot ErrorPhase (MsgParseError (parse_error parseResult)) 0 0 0
                           errs (parse_warnings parseResult)]))
         else
           (case parse_data parseResult of
              None \<Rightarrow> critical_error TypeError [] [] t0
            | Some parsedData \<Rightarrow>
                (let ws = parse_warnings parseResult;
                     ntotal = length (documents parsedData);
                     validation = validateParsedData P parsedData
                 in if \<not> fst validation
                    then (result0\<lparr>result_errors := snd validation, result_warnings := ws\<rparr>,
                          t0 @ [snapshot ErrorPhase
                                  (MsgValidationFailed
                                     (case snd validation of [] \<Rightarrow> None | e # es \<Rightarrow> Some e))
                                  0 0 ntotal (snd validation) ws])
                    else
                      (case import_documents E (documents parsedData) 0 ntotal ws
                              (0, [], t0 @ [snapshot Documents MsgImportDocuments 30 0 ntotal [] ws]) of
                         (Some error, (n, errs, trace)) \<Rightarrow> critical_error error errs ws trace
                       | (None, st) \<Rightarrow> finish_import E parsedData ws st))))"

section \<open>The idempotency check\<close>

text \<open>
  \<open>HarvestResultService.getAllResults\<close> awaits a query of the database client. The
  query rejects with a thrown value (\<open>Inl\<close>) or resolves to a response with an
  \<^verbatim>\<open>error\<close> (its message, when there is one) and \<^verbatim>\<open>data\<close> (the rows, or \<^verbatim>\<open>null\<close>).
  Of a row only the \<^verbatim>\<open>metadata\<close> column is read, so a row is its metadata.
\<close>

record response =
  response_data :: "jsvalue list option"
  response_error :: "string option"

definition getAllResults :: "thrown + response \<Rightarrow> thrown + jsvalue list" where
  "getAllResults query =
     (case query of
        Inl e \<Rightarrow> Inl e
      | Inr r \<Rightarrow>
          (case response_error r of
             Some m \<Rightarrow>
               Inl (Failure (''Erreur lors de la r'' @ [CHR 0xE9] @ ''cup'' @ [CHR 0xE9]
                             @ ''ration des r'' @ [CHR 0xE9] @ ''sultats: '' @ m))
           | None \<Rightarrow> Inr (case response_data r of Some rows \<Rightarrow> rows | None \<Rightarrow> [])))"

text \<open>
  \<open>checkIfAlreadyImported\<close>: \<^verbatim>\<open>metadata?.original_harvest_id\<close> is \<^verbatim>\<open>undefined\<close> on a
  \<^verbatim>\<open>null\<close> metadata. The result is \<open>Inr\<close> of the returned boolean; \<open>Inl\<close> would be an
  exception that leaves the function.
\<close>

definition checkIfAlreadyImported :: "thrown + response \<Rightarrow> string \<Rightarrow> thrown + bool" where
  "checkIfAlreadyImported query harvestResultId =
     (case getAllResults query of
        Inl error \<Rightarrow> Inr False
      | Inr existingResults \<Rightarrow>
          Inr (list_ex (\<lambda>metadata. get metadata ''original_harvest_id'' = JStr harvestResultId)
                 existingResults))"

section \<open>HarvestImportService.importHarvestResults\<close>

datatype upload_phase = Validation | Directory | Downloading | Saving | UploadCompleted | UploadError

record UploadResult =
  upload_success :: bool
  upload_documentsImported :: nat
  documentsWithErrors :: nat
  upload_logsImported :: nat
  localPath :: string
  upload_errors :: "errtext list"

definition upload_result0 :: UploadResult where
  "upload_result0 = \<lparr>upload_success = False, upload_documentsImported = 0, documentsWithErrors = 0,
                     upload_logsImported = 0, localPath = [], upload_errors = []\<rparr>"

text \<open>
  The function up to the test on the number of extracted documents: the returned
  \<^verbatim>\<open>ImportResult\<close> and the phases passed to \<^verbatim>\<open>notifyProgress\<close>. The phases that follow
  the test (directory, downloading, saving, completed), which run only on a batch with
  at least one document, are the parameter \<open>later_phases\<close>.
\<close>

definition importHarvestResults ::
  "platform \<Rightarrow> clock \<Rightarrow> (extracted \<Rightarrow> UploadResult \<times> upload_phase list) \<Rightarrow> string
   \<Rightarrow> UploadResult \<times> upload_phase list" where
  "importHarvestResults P c later_phases jsonContent =
     (let validation = validateImportJson P c jsonContent
      in if \<not> isValid validation
         then (upload_result0\<lparr>upload_errors := map (\<lambda>e. ValidationMessage (message e)) (errors validation)\<rparr>,
               [Validation, UploadError])
         else (case extractValidData P c jsonContent of
                 Inl error \<Rightarrow>
                   (upload_result0\<lparr>upload_errors := [ThrownMessage error]\<rparr>, [Validation, UploadError])
               | Inr ex \<Rightarrow>
                   if length (documents ex) = 0
                   then (upload_result0\<lparr>upload_errors := [NoValidDocumentInJson]\<rparr>, [Validation])
                   else (case later_phases ex of
                           (r, phases) \<Rightarrow> (r, Validation # phases))))"

section \<open>Notions used in the statements\<close>

text \<open>The trimmed \<^verbatim>\<open>url_doc\<close> of an entry, the key of the deduplication.\<close>

definition url_key :: "jsvalue \<Rightarrow> string" where
  "url_key doc = (case get doc ''url_doc'' of JStr s \<Rightarrow> trim s | _ \<Rightarrow> [])"

text \<open>An input leaves a default to the clock when a candidate document has no truthy
  \<^verbatim>\<open>annee\<close>, or an object among the logs has no truthy \<^verbatim>\<open>timestamp\<close>.\<close>

definition needs_year :: "jsvalue \<Rightarrow> bool" where
  "needs_year data =
     list_ex (\<lambda>doc. has_url_doc doc \<and> \<not> truthy (get doc ''annee''))
       (elements (get data ''documents''))"

definition needs_now :: "jsvalue \<Rightarrow> bool" where
  "needs_now data =
     list_ex (\<lambda>entry. truthy entry \<and> typeof_object entry \<and> \<not> truthy (get entry ''timestamp''))
       (elements (get data ''logs''))"


text \<open>A truthy value that is not a string under \<^verbatim>\<open>document_name\<close> or \<^verbatim>\<open>filename\<close>.\<close>

definition bad_name :: "jsvalue \<Rightarrow> bool" where
  "bad_name doc =
     ((truthy (get doc ''document_name'') \<and> \<not> typeof_string (get doc ''document_name'')) \<or>
      (truthy (get doc ''filename'') \<and> \<not> typeof_string (get doc ''filename'')))"

text \<open>
  An entry on which \<open>validateDocument\<close> throws: a bad name, or a \<^verbatim>\<open>date_edition\<close> or
  \<^verbatim>\<open>annee\<close> whose conversion to a string throws. Such a value is an object or an array,
  so it is truthy, it is no valid date and no integer, and the warning that interpolates
  it is reached.
\<close>

definition throwing_entry :: "jsvalue \<Rightarrow> bool" where
  "throwing_entry doc =
     (bad_name doc \<or> toString_throws (get doc ''date_edition'') \<or> toString_throws (get doc ''annee''))"

text \<open>A finding that carries a \<^verbatim>\<open>documentIndex\<close> up to \<open>k\<close> and no \<^verbatim>\<open>logIndex\<close>, as the
  validation of a document at an index up to \<open>k\<close> pushes them.\<close>

definition entry_finding_upto :: "nat \<Rightarrow> finding \<Rightarrow> bool" where
  "entry_finding_upto k f =
     (logIndex f = None \<and> (case documentIndex f of None \<Rightarrow> False | Some i \<Rightarrow> i \<le> k))"

text \<open>The findings on duplicated URLs of an array of entries, as the two loops over
  \<^verbatim>\<open>urlDocMap\<close> push them before any entry is validated. They carry neither index; the
  message of each lists all the positions of one URL in the array.\<close>

definition duplicate_findings :: "jsvalue list \<Rightarrow> finding list" where
  "duplicate_findings docs = fst (report_duplicates (collect_urls docs 0 []) ([], []))"

text \<open>The parsed copy of an entry that \<open>parseDocument\<close> keeps.\<close>

definition parsed :: "clock \<Rightarrow> jsvalue \<Rightarrow> jsvalue" where
  "parsed c doc = (case parseDocument c doc 0 of Inr (Some parsedDoc) \<Rightarrow> parsedDoc | _ \<Rightarrow> JUndefined)"


text \<open>The invariant of the proofs about a throwing document: the errors are the
  findings \<open>D\<close> followed by findings on documents up to index \<open>k\<close>, the warnings are
  findings on documents up to index \<open>k\<close>.\<close>

definition inv_upto :: "nat \<Rightarrow> finding list \<Rightarrow> findings \<Rightarrow> bool" where
  "inv_upto k D F =
     (take (length D) (fst F) = D \<and>
      list_all (entry_finding_upto k) (drop (length D) (fst F)) \<and>
      list_all (entry_finding_upto k) (snd F))"

text \<open>A step of a document's validation: it throws a TypeError or keeps the invariant.\<close>

definition doc_step :: "nat \<Rightarrow> finding list \<Rightarrow> (findings \<Rightarrow> thrown + findings) \<Rightarrow> bool" where
  "doc_step k D step =
     (\<forall>F. inv_upto k D F \<longrightarrow> (case step F of Inl e \<Rightarrow> e = TypeError | Inr F' \<Rightarrow> inv_upto k D F'))"

section \<open>Example inputs\<close>

definition doc_a :: jsvalue where
  "doc_a = JObj [(''url_doc'', JStr ''https://ex.com/a.pdf'')]"

definition doc_a_dup :: jsvalue where
  "doc_a_dup = JObj [(''url_doc'', JStr ''https://ex.com/a.pdf''), (''document_name'', JStr ''dup'')]"

definition doc_b :: jsvalue where
  "doc_b = JObj [(''url_doc'', JStr ''https://ex.com/b.pdf''), (''document_name'', JStr ''B'')]"

definition doc_c :: jsvalue where
  "doc_c = JObj [(''url_doc'', JStr ''https://ex.com/c.pdf''), (''filename'', JStr ''c.pdf'')]"

definition doc_not_a_url :: jsvalue where
  "doc_not_a_url = JObj [(''url_doc'', JStr ''not-a-url'')]"

definition doc_no_url :: jsvalue where
  "doc_no_url = JObj [(''document_name'', JStr ''no url'')]"

definition doc_blank :: jsvalue where
  "doc_blank = JObj [(''url_doc'', JStr '' '')]"

definition doc_url_5 :: jsvalue where
  "doc_url_5 = JObj [(''url_doc'', JNum (Num 5))]"

definition doc_name_5 :: jsvalue where
  "doc_name_5 = JObj [(''url_doc'', JStr ''https://ex.com/a.pdf''), (''document_name'', JNum (Num 5))]"

definition doc_dated :: jsvalue where
  "doc_dated = JObj [(''url_doc'', JStr ''https://ex.com/a.pdf''), (''document_name'', JStr ''A''),
                     (''filename'', JStr ''a.pdf''), (''date_edition'', JNum (Num 20240115)),
                     (''annee'', JNum (Num 2020))]"

definition doc_date_object :: jsvalue where
  "doc_date_object = JObj [(''url_doc'', JStr ''https://ex.com/a.pdf''), (''document_name'', JStr ''A''),
                           (''filename'', JStr ''a.pdf''),
                           (''date_edition'', JObj [(''toString'', JNum (Num 1))])]"

definition log_plain :: jsvalue where
  "log_plain = JObj [(''message'', JStr ''m'')]"

definition log_stamped :: jsvalue where
  "log_stamped = JObj [(''message'', JStr ''m''), (''timestamp'', JStr ''2024-01-15T10:30:00Z'')]"

definition log_level_object :: jsvalue where
  "log_level_object = JObj [(''level'', JObj [(''toString'', JNum (Num 1))]), (''message'', JStr ''m'')]"

text \<open>A stored harvest result with three valid documents, and one with entries that the
  parser excludes among two valid documents.\<close>

definition three_documents :: jsvalue where
  "three_documents = JObj [(''documents'', JArr [doc_a, doc_b, doc_c])]"

definition mixed_documents :: "jsvalue list" where
  "mixed_documents = [doc_a, doc_no_url, doc_blank, JNull, doc_url_5, doc_b]"

text \<open>Texts, with the value \<^verbatim>\<open>JSON.parse\<close> returns on each.\<close>

definition text_empty :: string where
  "text_empty = ''{\"documents\":[]}''"

definition text_roundtrip :: string where
  "text_roundtrip = ''{\"documents\":[{\"url_doc\":\"https://ex.com/a.pdf\"},{\"url_doc\":\"https://ex.com/a.pdf\",\"document_name\":\"dup\"},{\"url_doc\":\"not-a-url\"},{\"document_name\":\"no url\"}],\"logs\":[],\"obstacles-globaux\":[\"x\"],\"recommandations\":\"y\"}''"

definition text_blank :: string where
  "text_blank = ''{\"documents\":[{\"url_doc\":\" \"}]}''"

definition text_dup_then_5 :: string where
  "text_dup_then_5 = ''{\"documents\":[{\"url_doc\":\"https://ex.com/a.pdf\"},{\"url_doc\":\"https://ex.com/a.pdf\",\"document_name\":\"dup\"},{\"url_doc\":5}]}''"

definition text_log :: string where
  "text_log = ''{\"documents\":[],\"logs\":[{\"message\":\"m\"}]}''"

definition text_stamped :: string where
  "text_stamped = ''{\"documents\":[{\"url_doc\":\"https://ex.com/a.pdf\",\"document_name\":\"A\",\"filename\":\"a.pdf\",\"date_edition\":20240115,\"annee\":2020}],\"logs\":[{\"message\":\"m\",\"timestamp\":\"2024-01-15T10:30:00Z\"}]}''"

definition text_name_5 :: string where
  "text_name_5 = ''{\"documents\":[{\"url_doc\":\"https://ex.com/a.pdf\",\"document_name\":5},{\"document_name\":\"no url\"}],\"logs\":[null]}''"

definition text_null :: string where
  "text_null = ''null''"

definition text_broken :: string where
  "text_broken = ''{\"documents\":''"

definition parsed_texts :: "(string \<times> jsvalue) list" where
  "parsed_texts =
     [(text_empty, JObj [(''documents'', JArr [])]),
      (text_roundtrip,
         JObj [(''documents'', JArr [doc_a, doc_a_dup, doc_not_a_url, doc_no_url]),
               (''logs'', JArr []),
               (''obstacles-globaux'', JArr [JStr ''x'']),
               (''recommandations'', JStr ''y'')]),
      (text_blank, JObj [(''documents'', JArr [doc_blank])]),
      (text_dup_then_5, JObj [(''documents'', JArr [doc_a, doc_a_dup, doc_url_5])]),
      (text_log, JObj [(''documents'', JArr []), (''logs'', JArr [log_plain])]),
      (text_stamped, JObj [(''documents'', JArr [doc_dated]), (''logs'', JArr [log_stamped])]),
      (text_name_5, JObj [(''documents'', JArr [doc_name_5, doc_no_url]), (''logs'', JArr [JNull])]),
      (text_null, JNull)]"

definition text_date_object :: string where
  "text_date_object = ''{\"documents\":[{\"url_doc\":\"https://ex.com/a.pdf\",\"document_name\":\"A\",\"filename\":\"a.pdf\",\"date_edition\":{\"toString\":1}},{\"url_doc\":\"https://ex.com/a.pdf\",\"document_name\":\"dup\"}],\"logs\":[{\"message\":\"m\"}]}''"

text \<open>
  The platform on the strings of the examples: \<^verbatim>\<open>JSON.parse\<close> on the texts above
  (\<open>text_broken\<close> is not JSON), \<^verbatim>\<open>new URL\<close> on the three absolute URLs (it throws on
  \<^verbatim>\<open>"not-a-url"\<close> and on \<^verbatim>\<open>" "\<close>, which have no scheme), \<^verbatim>\<open>new Date\<close> on the one
  timestamp. No example asks it about any other string.
\<close>

definition example_platform :: platform where
  "example_platform =
     \<lparr>JSON_parse = map_of parsed_texts,
      URL_ok = (\<lambda>s. s \<in> {''https://ex.com/a.pdf'', ''https://ex.com/b.pdf'', ''https://ex.com/c.pdf''}),
      Date_ok = (\<lambda>s. s = ''2024-01-15T10:30:00Z'')\<rparr>"

text \<open>The same platform, with \<^verbatim>\<open>JSON.parse\<close> on \<open>text_date_object\<close>.\<close>

definition platform_date_object :: platform where
  "platform_date_object =
     example_platform
       \<lparr>JSON_parse :=
          (\<lambda>s. if s = text_date_object
                then Some (JObj [(''documents'', JArr [doc_date_object, doc_a_dup]),
                                 (''logs'', JArr [log_plain])])
                else None)\<rparr>"

definition clock_1 :: clock where
  "clock_1 = \<lparr>getFullYear = 2025, toISOString = ''2025-06-01T12:00:00.000Z''\<rparr>"

definition clock_2 :: clock where
  "clock_2 = \<lparr>getFullYear = 2026, toISOString = ''2026-01-01T00:00:00.001Z''\<rparr>"


definition all_succeed :: persistence where
  "all_succeed = \<lparr>createResult = (\<lambda>i. None), updateDataSource = None, createLog = (\<lambda>k. None)\<rparr>"

definition no_later_phases :: "extracted \<Rightarrow> UploadResult \<times> upload_phase list" where
  "no_later_phases ex = (upload_result0\<lparr>upload_success := True\<rparr>, [UploadCompleted])"

section \<open>Facts about the extractor\<close>

lemma dedupe_subseq: "dedupe seen xs = Inr kept \<Longrightarrow> subseq kept xs"
proof (induction xs arbitrary: seen kept)
  case Nil
  then show ?case by simp
next
  case (Cons d rest)
  then show ?case
    by (auto split: jsvalue.splits if_splits sum.splits intro: subseq_Cons')
qed

lemma dedupe_keys:
  "dedupe seen xs = Inr kept \<Longrightarrow> distinct (map url_key kept) \<and> (\<forall>k\<in>set kept. url_key k \<notin> seen)"
proof (induction xs arbitrary: seen kept)
  case Nil
  then show ?case by simp
next
  case (Cons d rest)
  from Cons.prems obtain s where s: "get d ''url_doc'' = JStr s"
    by (cases "get d ''url_doc''") auto
  then have key: "url_key d = trim s" by (simp add: url_key_def)
  show ?case
  proof (cases "trim s \<in> seen")
    case True
    with Cons.prems s have "dedupe seen rest = Inr kept" by simp
    then show ?thesis by (rule Cons.IH)
  next
    case False
    with Cons.prems s obtain kept' where
      k: "dedupe (insert (trim s) seen) rest = Inr kept'" and kept: "kept = d # kept'"
      by (auto split: sum.splits)
    from Cons.IH [OF k] have
      d: "distinct (map url_key kept')" and n: "\<forall>k\<in>set kept'. url_key k \<notin> insert (trim s) seen"
      by blast+
    from n have "url_key d \<notin> url_key ` set kept'" using key by auto
    with d n False key kept show ?thesis by auto
  qed
qed

lemma dedupe_find:
  "dedupe seen xs = Inr kept \<Longrightarrow> t \<notin> seen \<Longrightarrow>
   find (\<lambda>k. url_key k = t) kept = find (\<lambda>k. url_key k = t) xs"
proof (induction xs arbitrary: seen kept)
  case Nil
  then show ?case by simp
next
  case (Cons d rest)
  from Cons.prems(1) obtain s where s: "get d ''url_doc'' = JStr s"
    by (cases "get d ''url_doc''") auto
  then have key: "url_key d = trim s" by (simp add: url_key_def)
  show ?case
  proof (cases "trim s \<in> seen")
    case True
    with Cons.prems s have "dedupe seen rest = Inr kept" by simp
    then have "find (\<lambda>k. url_key k = t) kept = find (\<lambda>k. url_key k = t) rest"
      using Cons.IH Cons.prems(2) by blast
    moreover from True Cons.prems(2) key have "url_key d \<noteq> t" by auto
    ultimately show ?thesis by simp
  next
    case False
    with Cons.prems s obtain kept' where
      k: "dedupe (insert (trim s) seen) rest = Inr kept'" and kept: "kept = d # kept'"
      by (auto split: sum.splits)
    show ?thesis
    proof (cases "trim s = t")
      case True
      with key kept show ?thesis by simp
    next
      case neq: False
      with Cons.prems(2) have "t \<notin> insert (trim s) seen" by auto
      with k have "find (\<lambda>k. url_key k = t) kept' = find (\<lambda>k. url_key k = t) rest"
        using Cons.IH by blast
      with neq key kept show ?thesis by simp
    qed
  qed
qed

lemma dedupe_strings:
  "dedupe seen xs = Inr kept \<Longrightarrow> \<forall>d\<in>set xs. typeof_string (get d ''url_doc'')"
proof (induction xs arbitrary: seen kept)
  case Nil
  then show ?case by simp
next
  case (Cons d rest)
  then show ?case
    by (auto split: jsvalue.splits if_splits sum.splits)
qed

lemma dedupe_total:
  "\<forall>d\<in>set xs. typeof_string (get d ''url_doc'') \<Longrightarrow> \<exists>kept. dedupe seen xs = Inr kept"
proof (induction xs arbitrary: seen)
  case Nil
  then show ?case by simp
next
  case (Cons d rest)
  then obtain s where s: "get d ''url_doc'' = JStr s"
    by (cases "get d ''url_doc''") auto
  from Cons obtain k1 where k1: "dedupe seen rest = Inr k1" by fastforce
  from Cons obtain k2 where k2: "dedupe (insert (trim s) seen) rest = Inr k2" by fastforce
  show ?case using s k1 k2 by simp
qed

lemma find_filter: "find P (filter Q xs) = find (\<lambda>x. Q x \<and> P x) xs"
  by (induction xs) auto

lemma distinct_find_filter:
  "distinct (map f xs) \<Longrightarrow> find (\<lambda>k. f k = t) xs = Some x \<Longrightarrow> filter (\<lambda>k. f k = t) xs = [x]"
proof (induction xs)
  case Nil
  then show ?case by simp
next
  case (Cons a xs)
  show ?case
  proof (cases "f a = t")
    case True
    with Cons.prems have "x = a" by simp
    moreover from Cons.prems(1) have "f a \<notin> f ` set xs" by simp
    with True have "\<forall>k\<in>set xs. f k \<noteq> t" by blast
    then have "filter (\<lambda>k. f k = t) xs = []" by (simp add: filter_empty_conv)
    ultimately show ?thesis using True by simp
  next
    case False
    with Cons show ?thesis by simp
  qed
qed

lemma get_cleanDocument_url: "get (cleanDocument c d) ''url_doc'' = get d ''url_doc''"
  by (simp add: cleanDocument_def)

lemma url_key_cleanDocument: "url_key (cleanDocument c d) = url_key d"
  by (simp add: url_key_def get_cleanDocument_url)


lemma extract_parse_fail:
  "JSON_parse P jsonContent = None \<Longrightarrow> extractValidData P c jsonContent = Inr empty_extracted"
  by (simp add: extractValidData_def extractValidData_try_def)

lemma extract_nullish:
  "JSON_parse P jsonContent = Some data \<Longrightarrow> nullish data \<Longrightarrow> extractValidData P c jsonContent = Inr empty_extracted"
  by (simp add: extractValidData_def extractValidData_try_def)

lemma extract_not_array:
  "JSON_parse P jsonContent = Some data \<Longrightarrow> \<not> nullish data \<Longrightarrow> \<not> isArray (get data ''documents'') \<Longrightarrow>
   \<exists>r. extractValidData P c jsonContent = Inr r \<and> documents r = []"
  by (simp add: extractValidData_def extractValidData_try_def)

lemma extract_throws:
  "JSON_parse P jsonContent = Some data \<Longrightarrow> \<not> nullish data \<Longrightarrow> isArray (get data ''documents'') \<Longrightarrow>
   dedupe {} (filter has_url_doc (elements (get data ''documents''))) = Inl e \<Longrightarrow>
   extractValidData P c jsonContent = Inr empty_extracted"
  by (simp add: extractValidData_def extractValidData_try_def)

lemma extract_kept:
  "JSON_parse P jsonContent = Some data \<Longrightarrow> \<not> nullish data \<Longrightarrow> isArray (get data ''documents'') \<Longrightarrow>
   dedupe {} (filter has_url_doc (elements (get data ''documents''))) = Inr kept \<Longrightarrow>
   \<exists>r. extractValidData P c jsonContent = Inr r \<and> documents r = map (cleanDocument c) kept"
  by (simp add: extractValidData_def extractValidData_try_def)


lemma dedupe_set:
  assumes "dedupe seen xs = Inr kept"
  shows "set kept \<subseteq> set xs"
proof
  fix x assume "x \<in> set kept"
  with dedupe_subseq [OF assms] obtain y where "y \<in> set xs" and "x = y"
    by (rule list_emb_set)
  then show "x \<in> set xs" by simp
qed

lemma has_url_doc_string:
  assumes "has_url_doc d" and "typeof_string (get d ''url_doc'')"
  shows "\<exists>s. get d ''url_doc'' = JStr s \<and> s \<noteq> []"
proof (cases "get d ''url_doc''")
  case (JStr s)
  with assms(1) have "s \<noteq> []" by (simp add: has_url_doc_def)
  with JStr show ?thesis by simp
qed (use assms(2) in simp_all)

lemma extract_docs_parse_fail:
  "extractValidData P c j = Inr r \<Longrightarrow> JSON_parse P j = None \<Longrightarrow> documents r = []"
  using extract_parse_fail [of P j c] by (auto simp: empty_extracted_def)

lemma extract_docs_nullish:
  "extractValidData P c j = Inr r \<Longrightarrow> JSON_parse P j = Some data \<Longrightarrow> nullish data \<Longrightarrow>
   documents r = []"
  using extract_nullish [of P j data c] by (auto simp: empty_extracted_def)

lemma extract_docs_not_array:
  "extractValidData P c j = Inr r \<Longrightarrow> JSON_parse P j = Some data \<Longrightarrow> \<not> nullish data \<Longrightarrow>
   \<not> isArray (get data ''documents'') \<Longrightarrow> documents r = []"
  using extract_not_array [of P j data c] by auto

lemma extract_docs_throws:
  "extractValidData P c j = Inr r \<Longrightarrow> JSON_parse P j = Some data \<Longrightarrow> \<not> nullish data \<Longrightarrow>
   isArray (get data ''documents'') \<Longrightarrow>
   dedupe {} (filter has_url_doc (elements (get data ''documents''))) = Inl e \<Longrightarrow> documents r = []"
  using extract_throws [of P j data e c] by (auto simp: empty_extracted_def)

lemma extract_docs_kept:
  "extractValidData P c j = Inr r \<Longrightarrow> JSON_parse P j = Some data \<Longrightarrow> \<not> nullish data \<Longrightarrow>
   isArray (get data ''documents'') \<Longrightarrow>
   dedupe {} (filter has_url_doc (elements (get data ''documents''))) = Inr kept \<Longrightarrow>
   documents r = map (cleanDocument c) kept"
  using extract_kept [of P j data kept c] by auto

lemma kept_has_url_string:
  assumes "dedupe {} (filter has_url_doc docs) = Inr kept" and "d \<in> set kept"
  shows "truthy d \<and> typeof_object d \<and> (\<exists>s. get d ''url_doc'' = JStr s \<and> s \<noteq> [])"
proof -
  from assms dedupe_set [OF assms(1)] have h: "has_url_doc d" by auto
  from assms dedupe_set [OF assms(1)] dedupe_strings [OF assms(1)]
  have "typeof_string (get d ''url_doc'')" by auto
  with h have "\<exists>s. get d ''url_doc'' = JStr s \<and> s \<noteq> []" by (rule has_url_doc_string)
  with h show ?thesis by (simp add: has_url_doc_def)
qed

lemmas example_defs =
  example_platform_def parsed_texts_def text_empty_def text_roundtrip_def text_blank_def
  text_dup_then_5_def text_log_def text_stamped_def text_name_5_def text_null_def text_broken_def
  doc_a_def doc_a_dup_def doc_b_def doc_c_def doc_not_a_url_def doc_no_url_def doc_blank_def
  doc_url_5_def doc_name_5_def doc_dated_def log_plain_def log_stamped_def log_level_object_def
  three_documents_def mixed_documents_def doc_date_object_def

lemma get_JArr_not_nullish: "get data k = JArr xs \<Longrightarrow> \<not> nullish data"
  by (cases data) auto

lemma cleanDocument_clock:
  "truthy (get d ''annee'') \<or> getFullYear c1 = getFullYear c2 \<Longrightarrow>
   cleanDocument c1 d = cleanDocument c2 d"
  by (auto simp: cleanDocument_def or_else_def)

lemma cleanLog_clock:
  "truthy (get l ''timestamp'') \<or> toISOString c1 = toISOString c2 \<Longrightarrow>
   cleanLog c1 l = cleanLog c2 l"
  by (auto simp: cleanLog_def or_else_def)

lemma needs_year_iff:
  "needs_year data \<longleftrightarrow>
   (\<exists>d\<in>set (elements (get data ''documents'')). has_url_doc d \<and> \<not> truthy (get d ''annee''))"
  by (simp add: needs_year_def list_ex_iff)

lemma needs_now_iff:
  "needs_now data \<longleftrightarrow>
   (\<exists>l\<in>set (elements (get data ''logs'')). truthy l \<and> typeof_object l \<and> \<not> truthy (get l ''timestamp''))"
  by (simp add: needs_now_def list_ex_iff)

lemma extract_try_clock:
  assumes "needs_year data \<longrightarrow> getFullYear c1 = getFullYear c2"
    and "needs_now data \<longrightarrow> toISOString c1 = toISOString c2"
    and "JSON_parse P j = Some data"
  shows "extractValidData_try P c1 j = extractValidData_try P c2 j"
proof -
  let ?docs = "elements (get data ''documents'')"
  let ?logs = "filter (\<lambda>entry. truthy entry \<and> typeof_object entry) (elements (get data ''logs''))"
  have logs: "map (cleanLog c1) ?logs = map (cleanLog c2) ?logs"
  proof (rule map_cong [OF refl])
    fix l assume "l \<in> set ?logs"
    with assms(2) have "truthy (get l ''timestamp'') \<or> toISOString c1 = toISOString c2"
      by (auto simp: needs_now_iff)
    then show "cleanLog c1 l = cleanLog c2 l" by (rule cleanLog_clock)
  qed
  have docs: "map (cleanDocument c1) kept = map (cleanDocument c2) kept"
    if "dedupe {} (filter has_url_doc ?docs) = Inr kept" for kept
  proof (rule map_cong [OF refl])
    fix d assume "d \<in> set kept"
    with dedupe_set [OF that] have "d \<in> set ?docs" and "has_url_doc d" by auto
    with assms(1) have "truthy (get d ''annee'') \<or> getFullYear c1 = getFullYear c2"
      by (auto simp: needs_year_iff)
    then show "cleanDocument c1 d = cleanDocument c2 d" by (rule cleanDocument_clock)
  qed
  show ?thesis
  proof (cases "dedupe {} (filter has_url_doc ?docs)")
    case (Inl e)
    with assms(3) show ?thesis by (simp add: extractValidData_try_def logs)
  next
    case (Inr kept)
    with assms(3) docs [OF Inr] show ?thesis by (simp add: extractValidData_try_def logs)
  qed
qed

section \<open>Facts about the validator\<close>

lemma inv_upto_length: "inv_upto k D F \<Longrightarrow> length D \<le> length (fst F)"
proof -
  assume "inv_upto k D F"
  then have "take (length D) (fst F) = D" by (simp add: inv_upto_def)
  then have "length (take (length D) (fst F)) = length D" by simp
  then show ?thesis by simp
qed

lemma inv_push_error:
  assumes "inv_upto k D F" and "i \<le> k"
  shows "inv_upto k D (push_error f m (Some i) None F)"
proof -
  from assms(1) have "length D \<le> length (fst F)" by (rule inv_upto_length)
  with assms show ?thesis
    by (simp add: inv_upto_def entry_finding_upto_def push_error_def)
qed

lemma inv_push_warning:
  "inv_upto k D F \<Longrightarrow> i \<le> k \<Longrightarrow> inv_upto k D (push_warning f m (Some i) None F)"
  by (simp add: inv_upto_def entry_finding_upto_def push_warning_def)

lemma inv_check_url_doc:
  "inv_upto k D F \<Longrightarrow> i \<le> k \<Longrightarrow> inv_upto k D (snd (check_url_doc P doc i F))"
  by (simp add: check_url_doc_def inv_push_error split: jsvalue.split)

lemma check_name_cases:
  "check_name key m doc i F = Inl TypeError \<or> check_name key m doc i F = Inr F \<or>
   check_name key m doc i F = Inr (push_warning key m (Some i) None F)"
  by (simp add: check_name_def split: jsvalue.split)

lemma check_date_edition_cases:
  "check_date_edition P doc i F = Inl TypeError \<or> check_date_edition P doc i F = Inr F \<or>
   check_date_edition P doc i F =
     Inr (push_warning ''date_edition'' (DateEditionInvalid i (get doc ''date_edition'')) (Some i) None F)"
  by (simp add: check_date_edition_def)

lemma check_annee_cases:
  "check_annee c doc i F = Inl TypeError \<or> check_annee c doc i F = Inr F \<or>
   check_annee c doc i F =
     Inr (push_warning ''annee'' (AnneeInvalid i (get doc ''annee'')) (Some i) None F)"
  by (simp add: check_annee_def)

lemma doc_step_check_name: "i \<le> k \<Longrightarrow> doc_step k D (check_name key m doc i)"
  unfolding doc_step_def
proof (intro allI impI)
  fix F assume "i \<le> k" and "inv_upto k D F"
  then have "inv_upto k D (push_warning key m (Some i) None F)" by (simp add: inv_push_warning)
  with \<open>inv_upto k D F\<close> check_name_cases [of key m doc i F]
  show "case check_name key m doc i F of Inl e \<Rightarrow> e = TypeError | Inr F' \<Rightarrow> inv_upto k D F'"
    by auto
qed

lemma doc_step_check_date_edition: "i \<le> k \<Longrightarrow> doc_step k D (check_date_edition P doc i)"
  unfolding doc_step_def
proof (intro allI impI)
  fix F assume "i \<le> k" and "inv_upto k D F"
  then have "inv_upto k D (push_warning ''date_edition'' (DateEditionInvalid i (get doc ''date_edition'')) (Some i) None F)"
    by (simp add: inv_push_warning)
  with \<open>inv_upto k D F\<close> check_date_edition_cases [of P doc i F]
  show "case check_date_edition P doc i F of Inl e \<Rightarrow> e = TypeError | Inr F' \<Rightarrow> inv_upto k D F'"
    by auto
qed

lemma doc_step_check_annee: "i \<le> k \<Longrightarrow> doc_step k D (check_annee c doc i)"
  unfolding doc_step_def
proof (intro allI impI)
  fix F assume "i \<le> k" and "inv_upto k D F"
  then have "inv_upto k D (push_warning ''annee'' (AnneeInvalid i (get doc ''annee'')) (Some i) None F)"
    by (simp add: inv_push_warning)
  with \<open>inv_upto k D F\<close> check_annee_cases [of c doc i F]
  show "case check_annee c doc i F of Inl e \<Rightarrow> e = TypeError | Inr F' \<Rightarrow> inv_upto k D F'"
    by auto
qed

lemma run_steps_inv:
  "\<forall>s\<in>set steps. doc_step k D s \<Longrightarrow> inv_upto k D F \<Longrightarrow>
   inv_upto k D (snd (run_steps steps F)) \<and>
   (fst (run_steps steps F) = None \<or> fst (run_steps steps F) = Some TypeError)"
proof (induction steps arbitrary: F)
  case Nil
  then show ?case by simp
next
  case (Cons s steps)
  from Cons.prems have s: "doc_step k D s" by simp
  show ?case
  proof (cases "s F")
    case (Inl e)
    from s [unfolded doc_step_def, rule_format, OF Cons.prems(2)] Inl
    have "e = TypeError" by simp
    with Inl Cons.prems(2) show ?thesis by simp
  next
    case (Inr F')
    from s [unfolded doc_step_def, rule_format, OF Cons.prems(2)] Inr
    have "inv_upto k D F'" by simp
    with Cons.IH [of F'] Cons.prems(1) Inr show ?thesis by simp
  qed
qed

lemma validateDocument_inv:
  assumes "inv_upto k D F" and "i \<le> k"
  shows "inv_upto k D (snd (validateDocument P c doc i F)) \<and>
         (\<forall>e. fst (validateDocument P c doc i F) = Inl e \<longrightarrow> e = TypeError)"
proof (cases "\<not> truthy doc \<or> \<not> typeof_object doc")
  case True
  with assms show ?thesis by (simp add: validateDocument_def inv_push_error)
next
  case False
  let ?steps = "[check_name ''document_name'' (DocumentNameMissing i) doc i,
                 check_name ''filename'' (FilenameMissing i) doc i,
                 check_date_edition P doc i, check_annee c doc i]"
  let ?F1 = "snd (check_url_doc P doc i F)"
  from assms have inv1: "inv_upto k D ?F1" by (rule inv_check_url_doc)
  from assms(2) have "\<forall>s\<in>set ?steps. doc_step k D s"
    by (simp add: doc_step_check_name doc_step_check_date_edition doc_step_check_annee)
  from run_steps_inv [OF this inv1] False show ?thesis
    by (auto simp: validateDocument_def split: prod.splits option.splits)
qed

lemma check_name_throws:
  "truthy (get doc key) \<and> \<not> typeof_string (get doc key) \<Longrightarrow> check_name key m doc i G = Inl TypeError"
  by (cases "get doc key") (auto simp: check_name_def)

lemma toString_throws_facts:
  assumes "toString_throws v"
  shows "truthy v" and "\<not> typeof_string v" and "\<not> isValidDate P v" and "annee_out_of_range c v"
  using assms by (cases v; simp add: isValidDate_def annee_out_of_range_def)+

lemma check_date_edition_throws:
  "toString_throws (get doc ''date_edition'') \<Longrightarrow> check_date_edition P doc i G = Inl TypeError"
  by (simp add: check_date_edition_def toString_throws_facts)

lemma check_annee_throws:
  "toString_throws (get doc ''annee'') \<Longrightarrow> check_annee c doc i G = Inl TypeError"
  by (simp add: check_annee_def toString_throws_facts)

lemma check_name_returns:
  "\<not> (truthy (get doc key) \<and> \<not> typeof_string (get doc key)) \<Longrightarrow>
   \<exists>G'. check_name key m doc i G = Inr G'"
  by (cases "get doc key") (auto simp: check_name_def)

lemma check_date_edition_returns:
  "\<not> toString_throws (get doc ''date_edition'') \<Longrightarrow> \<exists>G'. check_date_edition P doc i G = Inr G'"
  by (simp add: check_date_edition_def)

lemma check_annee_returns:
  "\<not> toString_throws (get doc ''annee'') \<Longrightarrow> \<exists>G'. check_annee c doc i G = Inr G'"
  by (simp add: check_annee_def)

lemma step_total:
  "check_name key m doc i G = Inl TypeError \<or> (\<exists>G'. check_name key m doc i G = Inr G')"
  "check_date_edition P doc i G = Inl TypeError \<or> (\<exists>G'. check_date_edition P doc i G = Inr G')"
  "check_annee c doc i G = Inl TypeError \<or> (\<exists>G'. check_annee c doc i G = Inr G')"
  using check_name_cases [of key m doc i G] check_date_edition_cases [of P doc i G]
    check_annee_cases [of c doc i G]
  by auto

lemma run_steps_throws:
  assumes "\<forall>s\<in>set steps. \<forall>G. s G = Inl TypeError \<or> (\<exists>G'. s G = Inr G')"
    and "\<exists>s\<in>set steps. \<forall>G. s G = Inl TypeError"
  shows "fst (run_steps steps F) = Some TypeError"
  using assms
proof (induction steps arbitrary: F)
  case Nil
  then show ?case by simp
next
  case (Cons s steps)
  have "s \<in> set (s # steps)" by simp
  with Cons.prems(1) have here: "s F = Inl TypeError \<or> (\<exists>G'. s F = Inr G')" by blast
  show ?case
  proof (cases "s F")
    case (Inl e)
    with here have "e = TypeError" by simp
    with Inl show ?thesis by simp
  next
    case (Inr G')
    then have "s F \<noteq> Inl TypeError" by simp
    then have "\<not> (\<forall>G. s G = Inl TypeError)" by blast
    with Cons.prems(2) have "\<exists>s\<in>set steps. \<forall>G. s G = Inl TypeError"
      by (simp del: split_paired_All split_paired_Ex)
    moreover from Cons.prems(1) have "\<forall>s\<in>set steps. \<forall>G. s G = Inl TypeError \<or> (\<exists>G'. s G = Inr G')"
      by (simp del: split_paired_All split_paired_Ex)
    ultimately have "fst (run_steps steps G') = Some TypeError" by (rule Cons.IH [rotated])
    with Inr show ?thesis by simp
  qed
qed

lemma run_steps_returns:
  "\<forall>s\<in>set steps. \<forall>G. \<exists>G'. s G = Inr G' \<Longrightarrow> fst (run_steps steps F) = None"
proof (induction steps arbitrary: F)
  case Nil
  then show ?case by simp
next
  case (Cons s steps)
  then obtain G' where "s F = Inr G'" by (meson list.set_intros(1))
  with Cons show ?case by simp
qed

lemma throwing_entry_object: "throwing_entry doc \<Longrightarrow> truthy doc \<and> typeof_object doc"
  by (cases doc) (auto simp: throwing_entry_def bad_name_def)

lemma throwing_entry_throws:
  assumes "throwing_entry doc"
  shows "fst (validateDocument P c doc i F) = Inl TypeError"
proof -
  let ?steps = "[check_name ''document_name'' (DocumentNameMissing i) doc i,
                 check_name ''filename'' (FilenameMissing i) doc i,
                 check_date_edition P doc i, check_annee c doc i]"
  let ?F1 = "snd (check_url_doc P doc i F)"
  from assms have obj: "truthy doc \<and> typeof_object doc" by (rule throwing_entry_object)
  have steps: "\<forall>s\<in>set ?steps. \<forall>G. s G = Inl TypeError \<or> (\<exists>G'. s G = Inr G')"
    by (simp add: step_total del: split_paired_All split_paired_Ex)
  from assms have "\<exists>s\<in>set ?steps. \<forall>G. s G = Inl TypeError"
    by (auto simp: throwing_entry_def bad_name_def check_name_throws check_date_edition_throws
        check_annee_throws)
  with steps have thrown: "fst (run_steps ?steps ?F1) = Some TypeError" by (rule run_steps_throws)
  obtain t G where rs: "run_steps ?steps ?F1 = (t, G)" by (cases "run_steps ?steps ?F1")
  with thrown have "t = Some TypeError" by simp
  with obj rs show ?thesis by (simp add: validateDocument_def del: run_steps.simps)
qed

lemma other_entry_returns:
  assumes "\<not> throwing_entry doc"
  shows "\<exists>ok. fst (validateDocument P c doc i F) = Inr ok"
proof (cases "\<not> truthy doc \<or> \<not> typeof_object doc")
  case True
  then have "fst (validateDocument P c doc i F) = Inr False" by (simp add: validateDocument_def)
  then show ?thesis by blast
next
  case False
  let ?steps = "[check_name ''document_name'' (DocumentNameMissing i) doc i,
                 check_name ''filename'' (FilenameMissing i) doc i,
                 check_date_edition P doc i, check_annee c doc i]"
  let ?F1 = "snd (check_url_doc P doc i F)"
  from assms have "\<forall>s\<in>set ?steps. \<forall>G. \<exists>G'. s G = Inr G'"
    by (simp add: throwing_entry_def bad_name_def check_name_returns check_date_edition_returns
        check_annee_returns del: split_paired_All split_paired_Ex)
  then have none: "fst (run_steps ?steps ?F1) = None" by (rule run_steps_returns)
  obtain t G where rs: "run_steps ?steps ?F1 = (t, G)" by (cases "run_steps ?steps ?F1")
  with none have "t = None" by simp
  with False rs show ?thesis by (simp add: validateDocument_def del: run_steps.simps)
qed

lemma validate_documents_throwing:
  assumes "k < length docs" and "throwing_entry (docs ! k)" and "inv_upto (i0 + k) D F"
  shows "fst (validate_documents P c docs i0 F n) = Some TypeError \<and>
         inv_upto (i0 + k) D (fst (snd (validate_documents P c docs i0 F n)))"
  using assms
proof (induction docs arbitrary: k i0 F n)
  case Nil
  then show ?case by simp
next
  case (Cons doc rest)
  obtain out F' where v: "validateDocument P c doc i0 F = (out, F')"
    by (cases "validateDocument P c doc i0 F")
  from Cons.prems(3) validateDocument_inv [of "i0 + k" D F i0 P c doc] v
  have inv: "inv_upto (i0 + k) D F'" and ty: "\<forall>e. out = Inl e \<longrightarrow> e = TypeError"
    by simp_all
  show ?case
  proof (cases out)
    case (Inl e)
    with ty have "e = TypeError" by simp
    with Inl inv v show ?thesis by simp
  next
    case (Inr ok)
    have "k \<noteq> 0"
    proof
      assume "k = 0"
      with Cons.prems(2) have "throwing_entry doc" by simp
      then have "fst (validateDocument P c doc i0 F) = Inl TypeError" by (rule throwing_entry_throws)
      with Inr v show False by simp
    qed
    then obtain k' where k': "k = Suc k'" by (cases k) auto
    with Cons.prems have "k' < length rest" and "throwing_entry (rest ! k')" by simp_all
    moreover from inv k' have "inv_upto (i0 + 1 + k') D F'" by simp
    ultimately have
      "fst (validate_documents P c rest (i0 + 1) F' (if ok then n + 1 else n)) = Some TypeError \<and>
       inv_upto (i0 + 1 + k') D
         (fst (snd (validate_documents P c rest (i0 + 1) F' (if ok then n + 1 else n))))"
      by (rule Cons.IH)
    with Inr k' v show ?thesis by simp
  qed
qed

lemma report_duplicates_warnings: "snd (report_duplicates m F) = snd F"
  by (induction m F rule: report_duplicates.induct) (simp_all add: push_error_def)

lemma inv_upto_duplicates:
  "inv_upto k (duplicate_findings docs) (report_duplicates (collect_urls docs 0 []) ([], []))"
  by (simp add: inv_upto_def duplicate_findings_def report_duplicates_warnings)

lemma documents_part_throwing:
  assumes "get data ''documents'' = JArr docs" and "k < length docs" and "throwing_entry (docs ! k)"
  shows "\<exists>F1 S1. documents_part P c data ([], []) summary0 = (Some TypeError, F1, S1) \<and>
           inv_upto k (duplicate_findings docs) F1 \<and>
           totalDocuments S1 = length docs \<and> totalLogs S1 = 0 \<and> validLogs S1 = 0"
proof -
  let ?F2 = "report_duplicates (collect_urls docs 0 []) ([], [])"
  from assms(2) have nonempty: "length docs \<noteq> 0" by (cases docs) simp_all
  have "inv_upto (0 + k) (duplicate_findings docs) ?F2" by (simp add: inv_upto_duplicates)
  with assms(2,3) have
    v: "fst (validate_documents P c docs 0 ?F2 0) = Some TypeError \<and>
        inv_upto (0 + k) (duplicate_findings docs) (fst (snd (validate_documents P c docs 0 ?F2 0)))"
    by (rule validate_documents_throwing)
  obtain t F3 n where r: "validate_documents P c docs 0 ?F2 0 = (t, F3, n)"
    by (cases "validate_documents P c docs 0 ?F2 0")
  with v have t: "t = Some TypeError" and inv: "inv_upto k (duplicate_findings docs) F3"
    by simp_all
  from assms(1) nonempty r t have
    "documents_part P c data ([], []) summary0
       = (Some TypeError, F3, summary0\<lparr>totalDocuments := length docs, validDocuments := n\<rparr>)"
    by (simp add: documents_part_def summary0_def Let_def)
  with inv show ?thesis by (simp add: summary0_def)
qed

section \<open>Facts about the parser and the importer\<close>
































section \<open>The claims\<close>

subsection \<open>C1: which entries the extractor excludes\<close>

text \<open>
  Claim C1 says that an entry whose \<^verbatim>\<open>url_doc\<close> is missing, not a string, empty after
  trimming, or not parseable as a URL never appears in the documents that
  \<open>extractValidData\<close> returns. The extractor tests \<^verbatim>\<open>url_doc\<close> for truthiness only: a
  string of white space is kept, and the URL parser is never asked. At the text
  \<^verbatim>\<open>{"documents":[{"url_doc":" "}]}\<close> the entry, whose \<^verbatim>\<open>url_doc\<close> is empty after
  trimming, is in the output.
\<close>

theorem C1_counterexample:
  "trim '' '' = [] \<and>
   extractValidData example_platform clock_1 text_blank =
     Inr \<lparr>documents = [cleanDocument clock_1 doc_blank], logs = [],
          obstacles_globaux = [], recommandations = None\<rparr>"
  by (simp add: extractValidData_def extractValidData_try_def example_defs has_url_doc_def
      trim_def is_ws_def)

text \<open>
  C1 as amended: every document returned is the cleaned copy of an entry of the input
  array (in the order of the array) that is an object whose \<^verbatim>\<open>url_doc\<close> is a non-empty
  string. So an entry whose \<^verbatim>\<open>url_doc\<close> is missing, not a string, or the empty string
  never appears, whatever its other fields are.
\<close>

theorem extractValidData_keeps_only_url_strings:
  assumes "extractValidData P c jsonContent = Inr r"
  shows "\<exists>kept. documents r = map (cleanDocument c) kept \<and>
           (\<forall>d\<in>set kept. truthy d \<and> typeof_object d \<and> (\<exists>s. get d ''url_doc'' = JStr s \<and> s \<noteq> [])) \<and>
           (case JSON_parse P jsonContent of
              None \<Rightarrow> kept = []
            | Some data \<Rightarrow> subseq kept (elements (get data ''documents'')))"
proof -
  have none: ?thesis if "documents r = []"
    by (rule exI [where x = "[]"]) (use that in \<open>simp split: option.split\<close>)
  show ?thesis
  proof (cases "JSON_parse P jsonContent")
    case None
    with assms have "documents r = []" by (rule extract_docs_parse_fail)
    then show ?thesis by (rule none)
  next
    case (Some data)
    let ?docs = "elements (get data ''documents'')"
    show ?thesis
    proof (cases "nullish data")
      case True
      with assms Some have "documents r = []" by (rule extract_docs_nullish)
      then show ?thesis by (rule none)
    next
      case notnull: False
      show ?thesis
      proof (cases "isArray (get data ''documents'')")
        case False
        with assms Some notnull have "documents r = []" by (rule extract_docs_not_array)
        then show ?thesis by (rule none)
      next
        case arr: True
        show ?thesis
        proof (cases "dedupe {} (filter has_url_doc ?docs)")
          case (Inl e)
          with assms Some notnull arr have "documents r = []" by (rule extract_docs_throws)
          then show ?thesis by (rule none)
        next
          case (Inr kept)
          with assms Some notnull arr
          have docs: "documents r = map (cleanDocument c) kept" by (rule extract_docs_kept)
          from Inr have "subseq kept (filter has_url_doc ?docs)" by (rule dedupe_subseq)
          moreover have "subseq (filter has_url_doc ?docs) ?docs" by (rule subseq_filter_left)
          ultimately have sub: "subseq kept ?docs" by (rule subseq_order.trans)
          have props: "\<forall>d\<in>set kept. truthy d \<and> typeof_object d \<and> (\<exists>s. get d ''url_doc'' = JStr s \<and> s \<noteq> [])"
            using kept_has_url_string [OF Inr] by blast
          show ?thesis
            by (rule exI [where x = kept]) (use docs props sub Some in simp)
        qed
      qed
    qed
  qed
qed

theorem C1_witness:
  "extractValidData example_platform clock_1 text_roundtrip =
     Inr \<lparr>documents = map (cleanDocument clock_1) [doc_a, doc_not_a_url], logs = [],
          obstacles_globaux = [''x''], recommandations = Some ''y''\<rparr>"
proof -
  have e: "extractValidData example_platform clock_1 text_roundtrip =
     Inr \<lparr>documents = map (cleanDocument clock_1) [doc_a, doc_not_a_url], logs = [],
          obstacles_globaux = [''x''], recommandations = Some ''y''\<rparr>"
    by (simp add: extractValidData_def extractValidData_try_def example_defs has_url_doc_def
        trim_def is_ws_def)
  from extractValidData_keeps_only_url_strings [OF e] e show ?thesis by simp
qed

subsection \<open>C2: deduplication by trimmed URL\<close>

text \<open>
  Claim C2 says that for every input with two or more entries of the same trimmed
  \<^verbatim>\<open>url_doc\<close>, exactly one of them, the first, is in the output. When another entry of
  the array has a truthy \<^verbatim>\<open>url_doc\<close> that is not a string, \<^verbatim>\<open>trim\<close> throws, the
  \<^verbatim>\<open>catch\<close> clause returns the empty result, and none of the duplicates is in the
  output: so at \<^verbatim>\<open>{"documents":[A, A', {"url_doc":5}]}\<close>, where \<open>A\<close> and \<open>A'\<close> have the same
  URL.
\<close>

theorem C2_counterexample:
  "url_key doc_a = url_key doc_a_dup \<and>
   JSON_parse example_platform text_dup_then_5 =
     Some (JObj [(''documents'', JArr [doc_a, doc_a_dup, doc_url_5])]) \<and>
   extractValidData example_platform clock_1 text_dup_then_5 =
     Inr \<lparr>documents = [], logs = [], obstacles_globaux = [], recommandations = None\<rparr>"
  by (simp add: extractValidData_def extractValidData_try_def example_defs has_url_doc_def
      trim_def is_ws_def url_key_def empty_extracted_def)

text \<open>
  C2 as amended: when the text parses to an object whose \<^verbatim>\<open>documents\<close> is an array in
  which every entry that passes the first filter has a string \<^verbatim>\<open>url_doc\<close>, the
  returned documents are the cleaned copies of a subsequence \<open>kept\<close> of the array (so
  in input order), no two of them have the same trimmed \<^verbatim>\<open>url_doc\<close>, and for every
  entry \<open>d\<close> with a non-empty \<^verbatim>\<open>url_doc\<close> exactly one kept entry has the trimmed URL of
  \<open>d\<close>: the first such entry of the array.
\<close>

theorem extractValidData_deduplicates:
  assumes parse: "JSON_parse P jsonContent = Some data"
    and docs: "get data ''documents'' = JArr docs"
    and strings: "\<forall>d\<in>set docs. has_url_doc d \<longrightarrow> typeof_string (get d ''url_doc'')"
  shows "\<exists>r kept. extractValidData P c jsonContent = Inr r \<and>
           documents r = map (cleanDocument c) kept \<and>
           subseq kept docs \<and>
           distinct (map url_key (documents r)) \<and>
           (\<forall>d\<in>set docs. has_url_doc d \<longrightarrow>
              (\<exists>first. find (\<lambda>k. has_url_doc k \<and> url_key k = url_key d) docs = Some first \<and>
                       filter (\<lambda>k. url_key k = url_key d) kept = [first]))"
proof -
  from docs have notnull: "\<not> nullish data" by (rule get_JArr_not_nullish)
  from docs have arr: "isArray (get data ''documents'')" by simp
  from docs have el: "elements (get data ''documents'') = docs" by simp
  from strings have "\<forall>d\<in>set (filter has_url_doc docs). typeof_string (get d ''url_doc'')" by simp
  then obtain kept where kept: "dedupe {} (filter has_url_doc docs) = Inr kept"
    using dedupe_total by blast
  with el have kept': "dedupe {} (filter has_url_doc (elements (get data ''documents''))) = Inr kept"
    by simp
  from extract_kept [OF parse notnull arr kept', of c] obtain r where
    r: "extractValidData P c jsonContent = Inr r" and rdocs: "documents r = map (cleanDocument c) kept"
    by blast
  from kept have "subseq kept (filter has_url_doc docs)" by (rule dedupe_subseq)
  moreover have "subseq (filter has_url_doc docs) docs" by (rule subseq_filter_left)
  ultimately have sub: "subseq kept docs" by (rule subseq_order.trans)
  from dedupe_keys [OF kept] have dk: "distinct (map url_key kept)" by simp
  have "map url_key (map (cleanDocument c) kept) = map url_key kept"
    by (induction kept) (simp_all add: url_key_cleanDocument)
  with dk have "distinct (map url_key (map (cleanDocument c) kept))" by (simp only:)
  with rdocs have dist: "distinct (map url_key (documents r))" by (simp only:)
  have firsts: "\<forall>d\<in>set docs. has_url_doc d \<longrightarrow>
              (\<exists>first. find (\<lambda>k. has_url_doc k \<and> url_key k = url_key d) docs = Some first \<and>
                       filter (\<lambda>k. url_key k = url_key d) kept = [first])"
  proof (intro ballI impI)
    fix d assume d: "d \<in> set docs" and h: "has_url_doc d"
    have "find (\<lambda>k. url_key k = url_key d) kept = find (\<lambda>k. url_key k = url_key d) (filter has_url_doc docs)"
      using kept by (rule dedupe_find) simp
    also have "\<dots> = find (\<lambda>k. has_url_doc k \<and> url_key k = url_key d) docs"
      by (rule find_filter)
    finally have eq: "find (\<lambda>k. url_key k = url_key d) kept
                      = find (\<lambda>k. has_url_doc k \<and> url_key k = url_key d) docs" .
    from d h have "find (\<lambda>k. has_url_doc k \<and> url_key k = url_key d) docs \<noteq> None"
      by (auto simp: find_None_iff)
    then obtain first where first: "find (\<lambda>k. has_url_doc k \<and> url_key k = url_key d) docs = Some first"
      by blast
    with eq have "find (\<lambda>k. url_key k = url_key d) kept = Some first" by simp
    with dk have "filter (\<lambda>k. url_key k = url_key d) kept = [first]" by (rule distinct_find_filter)
    with first show "\<exists>first. find (\<lambda>k. has_url_doc k \<and> url_key k = url_key d) docs = Some first \<and>
                       filter (\<lambda>k. url_key k = url_key d) kept = [first]" by simp
  qed
  show ?thesis
    by (rule exI [where x = r], rule exI [where x = kept]) (use r rdocs sub dist firsts in blast)
qed

theorem C2_witness:
  "extractValidData example_platform clock_1 text_roundtrip =
     Inr \<lparr>documents = [cleanDocument clock_1 doc_a, cleanDocument clock_1 doc_not_a_url], logs = [],
          obstacles_globaux = [''x''], recommandations = Some ''y''\<rparr> \<and>
   url_key doc_a_dup = url_key doc_a \<and>
   find (\<lambda>k. has_url_doc k \<and> url_key k = url_key doc_a_dup)
     [doc_a, doc_a_dup, doc_not_a_url, doc_no_url] = Some doc_a"
proof -
  have p: "JSON_parse example_platform text_roundtrip =
             Some (JObj [(''documents'', JArr [doc_a, doc_a_dup, doc_not_a_url, doc_no_url]),
               (''logs'', JArr []),
               (''obstacles-globaux'', JArr [JStr ''x'']),
               (''recommandations'', JStr ''y'')])"
    by (simp add: example_platform_def parsed_texts_def text_empty_def text_roundtrip_def)
  have g: "get (JObj [(''documents'', JArr [doc_a, doc_a_dup, doc_not_a_url, doc_no_url]),
               (''logs'', JArr []),
               (''obstacles-globaux'', JArr [JStr ''x'']),
               (''recommandations'', JStr ''y'')]) ''documents''
           = JArr [doc_a, doc_a_dup, doc_not_a_url, doc_no_url]"
    by simp
  have s: "\<forall>d\<in>set [doc_a, doc_a_dup, doc_not_a_url, doc_no_url].
             has_url_doc d \<longrightarrow> typeof_string (get d ''url_doc'')"
    by (simp add: example_defs has_url_doc_def)
  have e: "extractValidData example_platform clock_1 text_roundtrip =
     Inr \<lparr>documents = [cleanDocument clock_1 doc_a, cleanDocument clock_1 doc_not_a_url], logs = [],
          obstacles_globaux = [''x''], recommandations = Some ''y''\<rparr>"
    by (simp add: extractValidData_def extractValidData_try_def example_defs has_url_doc_def
        trim_def is_ws_def)
  have k: "url_key doc_a_dup = url_key doc_a"
    by (simp add: url_key_def example_defs)
  have f: "find (\<lambda>k. has_url_doc k \<and> url_key k = url_key doc_a_dup)
     [doc_a, doc_a_dup, doc_not_a_url, doc_no_url] = Some doc_a"
    by (simp add: url_key_def example_defs has_url_doc_def)
  from extractValidData_deduplicates [OF p g s, of clock_1] e k f show ?thesis by simp
qed

subsection \<open>C7: the extractor never throws\<close>

text \<open>
  Claim C7: for every input string \<open>extractValidData\<close> returns normally (\<open>Inr\<close>), and
  when \<^verbatim>\<open>JSON.parse\<close> fails or anything in the body throws, what it returns is the
  all-empty result.
\<close>

theorem extractValidData_never_throws:
  "\<exists>r. extractValidData P c jsonContent = Inr r \<and>
        (JSON_parse P jsonContent = None \<longrightarrow> r = empty_extracted) \<and>
        (\<forall>e. extractValidData_try P c jsonContent = Inl e \<longrightarrow> r = empty_extracted)"
proof (cases "extractValidData_try P c jsonContent")
  case (Inl e)
  then have "extractValidData P c jsonContent = Inr empty_extracted"
    by (simp add: extractValidData_def)
  then show ?thesis by simp
next
  case (Inr r)
  then have r: "extractValidData P c jsonContent = Inr r"
    by (simp add: extractValidData_def)
  have "JSON_parse P jsonContent \<noteq> None"
  proof
    assume "JSON_parse P jsonContent = None"
    then have "extractValidData_try P c jsonContent = Inl SyntaxError"
      by (simp add: extractValidData_try_def)
    with Inr show False by simp
  qed
  with r Inr show ?thesis by auto
qed

theorem C7_witness:
  "JSON_parse example_platform text_broken = None \<and>
   extractValidData example_platform clock_1 text_broken = Inr empty_extracted \<and>
   extractValidData_try example_platform clock_1 text_null = Inl TypeError \<and>
   extractValidData example_platform clock_1 text_null = Inr empty_extracted \<and>
   extractValidData_try example_platform clock_1 text_dup_then_5 = Inl TypeError \<and>
   extractValidData example_platform clock_1 text_dup_then_5 = Inr empty_extracted"
proof -
  have a: "JSON_parse example_platform text_broken = None"
    by (simp add: example_defs)
  have b: "extractValidData_try example_platform clock_1 text_null = Inl TypeError"
    by (simp add: extractValidData_try_def example_defs)
  have c: "extractValidData_try example_platform clock_1 text_dup_then_5 = Inl TypeError"
    by (simp add: extractValidData_try_def example_defs has_url_doc_def trim_def is_ws_def)
  from extractValidData_never_throws [of example_platform clock_1 text_broken] a
  have 1: "extractValidData example_platform clock_1 text_broken = Inr empty_extracted" by auto
  from extractValidData_never_throws [of example_platform clock_1 text_null] b
  have 2: "extractValidData example_platform clock_1 text_null = Inr empty_extracted" by auto
  from extractValidData_never_throws [of example_platform clock_1 text_dup_then_5] c
  have 3: "extractValidData example_platform clock_1 text_dup_then_5 = Inr empty_extracted" by auto
  from a b c 1 2 3 show ?thesis by simp
qed

subsection \<open>C8: two calls on the same text\<close>

text \<open>
  Claim C8 says that two calls of \<open>extractValidData\<close> on the same string give equal
  results. The function reads the clock: a log without \<^verbatim>\<open>timestamp\<close> gets
  \<^verbatim>\<open>new Date().toISOString()\<close> and a document without \<^verbatim>\<open>annee\<close> gets the current year.
  On \<^verbatim>\<open>{"documents":[],"logs":[{"message":"m"}]}\<close> two calls at different clock
  readings differ.
\<close>

theorem C8_counterexample:
  "extractValidData example_platform clock_1 text_log \<noteq>
   extractValidData example_platform clock_2 text_log"
  by (simp add: extractValidData_def extractValidData_try_def example_defs cleanLog_def
      or_else_def clock_1_def clock_2_def)

text \<open>
  C8 as amended: the two results are equal whenever the clock reads the same in both
  calls wherever the input leaves a default to it: the same year if some candidate
  document has no truthy \<^verbatim>\<open>annee\<close>, the same timestamp if some object among the logs has
  no truthy \<^verbatim>\<open>timestamp\<close>. Nothing else distinguishes two calls: the set of seen URLs is
  local to a call.
\<close>

theorem extractValidData_clock_only_defaults:
  assumes "\<forall>data. JSON_parse P jsonContent = Some data \<longrightarrow>
             (needs_year data \<longrightarrow> getFullYear c1 = getFullYear c2) \<and>
             (needs_now data \<longrightarrow> toISOString c1 = toISOString c2)"
  shows "extractValidData P c1 jsonContent = extractValidData P c2 jsonContent"
proof (cases "JSON_parse P jsonContent")
  case None
  then show ?thesis by (simp add: extract_parse_fail)
next
  case (Some data)
  with assms have "needs_year data \<longrightarrow> getFullYear c1 = getFullYear c2"
    and "needs_now data \<longrightarrow> toISOString c1 = toISOString c2" by blast+
  then have "extractValidData_try P c1 jsonContent = extractValidData_try P c2 jsonContent"
    using Some by (rule extract_try_clock)
  then show ?thesis by (simp add: extractValidData_def)
qed

theorem C8_witness:
  "getFullYear clock_1 \<noteq> getFullYear clock_2 \<and> toISOString clock_1 \<noteq> toISOString clock_2 \<and>
   extractValidData example_platform clock_1 text_stamped =
   extractValidData example_platform clock_2 text_stamped \<and>
   extractValidData example_platform clock_2 text_stamped =
     Inr \<lparr>documents = [cleanDocument clock_1 doc_dated], logs = [cleanLog clock_1 log_stamped],
          obstacles_globaux = [], recommandations = None\<rparr>"
proof -
  have h: "\<forall>data. JSON_parse example_platform text_stamped = Some data \<longrightarrow>
             (needs_year data \<longrightarrow> getFullYear clock_1 = getFullYear clock_2) \<and>
             (needs_now data \<longrightarrow> toISOString clock_1 = toISOString clock_2)"
    by (simp add: example_defs needs_year_def needs_now_def has_url_doc_def)
  have e: "extractValidData example_platform clock_1 text_stamped =
     Inr \<lparr>documents = [cleanDocument clock_1 doc_dated], logs = [cleanLog clock_1 log_stamped],
          obstacles_globaux = [], recommandations = None\<rparr>"
    by (simp add: extractValidData_def extractValidData_try_def example_defs has_url_doc_def
        trim_def is_ws_def)
  have d: "getFullYear clock_1 \<noteq> getFullYear clock_2 \<and> toISOString clock_1 \<noteq> toISOString clock_2"
    by (simp add: clock_1_def clock_2_def)
  from extractValidData_clock_only_defaults [OF h] e d show ?thesis by simp
qed

subsection \<open>C9: the idempotency check survives a failing query\<close>

text \<open>
  Claim C9: \<open>checkIfAlreadyImported\<close> always returns a boolean (\<open>Inr\<close>), and when the
  query behind \<open>getAllResults\<close> throws, whether by rejecting or by answering with an
  error, that boolean is \<^verbatim>\<open>false\<close>.
\<close>

theorem checkIfAlreadyImported_failure_safe:
  "(\<exists>b. checkIfAlreadyImported query harvestResultId = Inr b) \<and>
   (\<forall>e. getAllResults query = Inl e \<longrightarrow> checkIfAlreadyImported query harvestResultId = Inr False)"
proof (cases "getAllResults query")
  case (Inl e)
  then have "checkIfAlreadyImported query harvestResultId = Inr False"
    by (simp add: checkIfAlreadyImported_def)
  then show ?thesis by blast
next
  case (Inr existingResults)
  then show ?thesis by (simp add: checkIfAlreadyImported_def)
qed

theorem C9_witness:
  "getAllResults (Inl (Failure ''network down'')) = Inl (Failure ''network down'') \<and>
   checkIfAlreadyImported (Inl (Failure ''network down'')) ''h1'' = Inr False \<and>
   checkIfAlreadyImported (Inr \<lparr>response_data = None, response_error = Some ''timeout''\<rparr>) ''h1''
     = Inr False \<and>
   checkIfAlreadyImported
     (Inr \<lparr>response_data = Some [JNull, JObj [(''original_harvest_id'', JStr ''h1'')]],
           response_error = None\<rparr>) ''h1'' = Inr True"
proof -
  have a: "getAllResults (Inl (Failure ''network down'')) = Inl (Failure ''network down'')"
    by (simp add: getAllResults_def)
  have b: "\<exists>e. getAllResults (Inr \<lparr>response_data = None, response_error = Some ''timeout''\<rparr>) = Inl e"
    by (simp add: getAllResults_def)
  have c: "checkIfAlreadyImported
     (Inr \<lparr>response_data = Some [JNull, JObj [(''original_harvest_id'', JStr ''h1'')]],
           response_error = None\<rparr>) ''h1'' = Inr True"
    by (simp add: checkIfAlreadyImported_def getAllResults_def)
  from checkIfAlreadyImported_failure_safe [of "Inl (Failure ''network down'')" "''h1''"] a
  have 1: "checkIfAlreadyImported (Inl (Failure ''network down'')) ''h1'' = Inr False" by blast
  from checkIfAlreadyImported_failure_safe
         [of "Inr \<lparr>response_data = None, response_error = Some ''timeout''\<rparr>" "''h1''"] b
  have 2: "checkIfAlreadyImported (Inr \<lparr>response_data = None, response_error = Some ''timeout''\<rparr>) ''h1''
     = Inr False" by blast
  from a 1 2 c show ?thesis by simp
qed

subsection \<open>C6: the field validators and exceptions\<close>

text \<open>
  Claim C6 says that \<open>validateDocument\<close> and \<open>validateLog\<close> never throw. On the entry
  \<^verbatim>\<open>{"url_doc":"https://ex.com/a.pdf","document_name":5}\<close> the test
  \<^verbatim>\<open>doc.document_name.trim() === ''\<close> throws a TypeError out of \<open>validateDocument\<close>; on the
  log \<^verbatim>\<open>{"level":{"toString":1},"message":"m"}\<close> the template literal of the warning
  throws a TypeError out of \<open>validateLog\<close>.
\<close>

theorem validateDocument_throws:
  "validateDocument example_platform clock_1 doc_name_5 0 ([], []) = (Inl TypeError, ([], [])) \<and>
   validateLog example_platform log_level_object 0 ([], []) = (Inl TypeError, ([], []))"
  by (simp add: validateDocument_def validateLog_def check_url_doc_def check_name_def
      check_level_def example_defs trim_def is_ws_def)

theorem C6_witness:
  "fst (validateDocument example_platform clock_1 doc_name_5 0 ([], [])) = Inl TypeError \<and>
   fst (validateLog example_platform log_level_object 0 ([], [])) = Inl TypeError"
  using validateDocument_throws by simp

subsection \<open>C10: a truthy optional field that is not a string\<close>

text \<open>
  Claim C10 says that an entry with a valid \<^verbatim>\<open>url_doc\<close> and a truthy optional field that
  is not a string makes \<open>validateImportJson\<close> return \<^verbatim>\<open>isValid=false\<close> with a finding of
  field \<^verbatim>\<open>json\<close>. Not every such field does. The entry
  \<^verbatim>\<open>{"url_doc":"https://ex.com/a.pdf","document_name":"A","filename":"a.pdf",
  "date_edition":20240115,"annee":2020}\<close> has two truthy optional fields that are not
  strings, and the batch is valid, with a warning on the date.
\<close>

theorem C10_counterexample:
  "validateImportJson example_platform clock_1 text_stamped =
     \<lparr>isValid = True, errors = [],
      warnings = [\<lparr>field = ''date_edition'', message = DateEditionInvalid 0 (JNum (Num 20240115)),
                   documentIndex = Some 0, logIndex = None, severity = SevWarning\<rparr>,
                  \<lparr>field = ''level'', message = LevelMissing 0,
                   documentIndex = None, logIndex = Some 0, severity = SevWarning\<rparr>],
      summary = \<lparr>totalDocuments = 1, validDocuments = 1, totalLogs = 1, validLogs = 1\<rparr>\<rparr>"
  by (simp add: validateImportJson_def documents_part_def logs_part_def global_checks_def
      final_result_def summary0_def validateDocument_def validateLog_def check_url_doc_def
      check_name_def check_date_edition_def check_annee_def annee_out_of_range_def isValidDate_def
      check_level_def check_message_def check_timestamp_def check_log_url_def
      push_warning_def push_error_def example_defs clock_1_def trim_def is_ws_def)

text \<open>
  C10 as amended. \<open>validateDocument\<close> throws a TypeError on the entries that have a
  truthy \<^verbatim>\<open>document_name\<close> or \<^verbatim>\<open>filename\<close> that is not a string, or a \<^verbatim>\<open>date_edition\<close> or
  \<^verbatim>\<open>annee\<close> whose conversion to a string throws (an object with an own property
  \<^verbatim>\<open>toString\<close>, or an array with such an object among its elements, at any depth of
  arrays); on every other entry it returns. When the text parses to an object whose
  \<^verbatim>\<open>documents\<close> array has such an entry at index \<open>k\<close> (whatever its \<^verbatim>\<open>url_doc\<close>),
  \<open>validateImportJson\<close> returns \<^verbatim>\<open>isValid=false\<close> and these errors, in this order: the
  findings on duplicated URLs of the whole array, which are pushed before any entry is
  validated and may name positions after \<open>k\<close>; then findings that carry a
  \<^verbatim>\<open>documentIndex\<close> of at most \<open>k\<close> and no \<^verbatim>\<open>logIndex\<close>; then the finding of field
  \<^verbatim>\<open>json\<close> that the \<^verbatim>\<open>catch\<close> clause builds from the TypeError. Every warning carries a
  \<^verbatim>\<open>documentIndex\<close> of at most \<open>k\<close> and no \<^verbatim>\<open>logIndex\<close>. In the summary,
  \<^verbatim>\<open>totalDocuments\<close> is the length of the array, \<^verbatim>\<open>totalLogs\<close> and \<^verbatim>\<open>validLogs\<close> are 0.
\<close>

theorem validateImportJson_throwing_entry:
  assumes "JSON_parse P jsonContent = Some data"
    and "get data ''documents'' = JArr docs"
    and "k < length docs"
    and "throwing_entry (docs ! k)"
  shows "(\<forall>doc i F. (fst (validateDocument P c doc i F) = Inl TypeError) = throwing_entry doc) \<and>
         (\<forall>doc i F. throwing_entry doc \<or> (\<exists>ok. fst (validateDocument P c doc i F) = Inr ok)) \<and>
         \<not> isValid (validateImportJson P c jsonContent) \<and>
         (\<exists>es. errors (validateImportJson P c jsonContent) =
                  duplicate_findings docs @ es @
                  [\<lparr>field = ''json'', message = JsonSyntax TypeError, documentIndex = None,
                    logIndex = None, severity = SevError\<rparr>] \<and>
                list_all (entry_finding_upto k) es) \<and>
         list_all (entry_finding_upto k) (warnings (validateImportJson P c jsonContent)) \<and>
         totalDocuments (summary (validateImportJson P c jsonContent)) = length docs \<and>
         totalLogs (summary (validateImportJson P c jsonContent)) = 0 \<and>
         validLogs (summary (validateImportJson P c jsonContent)) = 0"
proof -
  let ?json = "\<lparr>field = ''json'', message = JsonSyntax TypeError, documentIndex = None,
                logIndex = None, severity = SevError\<rparr>"
  let ?r = "validateImportJson P c jsonContent"
  let ?D = "duplicate_findings docs"
  have throws: "\<forall>doc i F. (fst (validateDocument P c doc i F) = Inl TypeError) = throwing_entry doc"
  proof (intro allI)
    fix doc i F
    show "(fst (validateDocument P c doc i F) = Inl TypeError) = throwing_entry doc"
    proof (cases "throwing_entry doc")
      case True
      then show ?thesis by (simp add: throwing_entry_throws)
    next
      case False
      then obtain ok where "fst (validateDocument P c doc i F) = Inr ok"
        using other_entry_returns [of doc P c i F] by blast
      with False show ?thesis by simp
    qed
  qed
  have returns: "\<forall>doc i F. throwing_entry doc \<or> (\<exists>ok. fst (validateDocument P c doc i F) = Inr ok)"
    using other_entry_returns by blast
  from assms(2) have obj: "truthy data \<and> typeof_object data" by (cases data) auto
  from documents_part_throwing [OF assms(2,3,4), of P c] obtain F1 S1 where
    d: "documents_part P c data ([], []) summary0 = (Some TypeError, F1, S1)"
    and inv: "inv_upto k ?D F1"
    and S1: "totalDocuments S1 = length docs" "totalLogs S1 = 0" "validLogs S1 = 0"
    by blast
  from assms(1) obj d have "?r = final_result (catch_parseError TypeError F1) S1"
    by (simp add: validateImportJson_def)
  then have r: "errors ?r = fst F1 @ [?json]" "warnings ?r = snd F1" "summary ?r = S1"
    "isValid ?r = (length (fst F1 @ [?json]) = 0)"
    by (simp_all add: final_result_def catch_parseError_def push_error_def)
  from inv have parts: "take (length ?D) (fst F1) = ?D"
    "list_all (entry_finding_upto k) (drop (length ?D) (fst F1))"
    "list_all (entry_finding_upto k) (snd F1)"
    by (simp_all add: inv_upto_def)
  from parts(1) have "fst F1 = ?D @ drop (length ?D) (fst F1)"
    by (metis append_take_drop_id)
  with r(1) have "errors ?r = ?D @ drop (length ?D) (fst F1) @ [?json]" by simp
  then have split: "errors ?r = ?D @ drop (length ?D) (fst F1) @ [?json] \<and>
      list_all (entry_finding_upto k) (drop (length ?D) (fst F1))"
    using parts(2) by simp
  have es: "\<exists>es. errors ?r = ?D @ es @ [?json] \<and> list_all (entry_finding_upto k) es"
    by (rule exI [where x = "drop (length ?D) (fst F1)"]) (rule split)
  from r(4) have invalid: "\<not> isValid ?r" by simp
  from parts(3) r(2) have ws: "list_all (entry_finding_upto k) (warnings ?r)" by simp
  from S1 r(3) have sums: "totalDocuments (summary ?r) = length docs"
    "totalLogs (summary ?r) = 0" "validLogs (summary ?r) = 0"
    by simp_all
  from throws returns invalid es ws sums show ?thesis by (intro conjI)
qed

text \<open>
  The theorem on two batches. In the first, entry 0 has the number 5 as its
  \<^verbatim>\<open>document_name\<close>; the second entry, which has no \<^verbatim>\<open>url_doc\<close>, and the log \<^verbatim>\<open>null\<close>
  are never looked at. In the second, entry 0 has \<^verbatim>\<open>{"toString":1}\<close> as its
  \<^verbatim>\<open>date_edition\<close> and entry 1 repeats its URL: the finding on the duplicate, which names
  the positions 0 and 1, comes before the finding of field \<^verbatim>\<open>json\<close>, and the log is not
  counted.
\<close>

theorem C10_witness:
  "validateImportJson example_platform clock_1 text_name_5 =
     \<lparr>isValid = False,
      errors = [\<lparr>field = ''json'', message = JsonSyntax TypeError, documentIndex = None,
                 logIndex = None, severity = SevError\<rparr>],
      warnings = [],
      summary = \<lparr>totalDocuments = 2, validDocuments = 0, totalLogs = 0, validLogs = 0\<rparr>\<rparr> \<and>
   validateImportJson platform_date_object clock_1 text_date_object =
     \<lparr>isValid = False,
      errors = [\<lparr>field = ''url_doc'', message = DuplicateUrl ''https://ex.com/a.pdf'' [0, 1],
                 documentIndex = None, logIndex = None, severity = SevError\<rparr>,
                \<lparr>field = ''json'', message = JsonSyntax TypeError, documentIndex = None,
                 logIndex = None, severity = SevError\<rparr>],
      warnings = [],
      summary = \<lparr>totalDocuments = 2, validDocuments = 0, totalLogs = 0, validLogs = 0\<rparr>\<rparr>"
proof -
  have p: "JSON_parse example_platform text_name_5 =
             Some (JObj [(''documents'', JArr [doc_name_5, doc_no_url]), (''logs'', JArr [JNull])])"
    by (simp add: example_platform_def parsed_texts_def text_empty_def text_roundtrip_def
        text_blank_def text_dup_then_5_def text_log_def text_stamped_def text_name_5_def)
  have g: "get (JObj [(''documents'', JArr [doc_name_5, doc_no_url]), (''logs'', JArr [JNull])])
             ''documents'' = JArr [doc_name_5, doc_no_url]"
    by simp
  have k: "(0::nat) < length [doc_name_5, doc_no_url]" by simp
  have b: "throwing_entry ([doc_name_5, doc_no_url] ! 0)"
    by (simp add: throwing_entry_def bad_name_def doc_name_5_def)
  have e: "validateImportJson example_platform clock_1 text_name_5 =
     \<lparr>isValid = False,
      errors = [\<lparr>field = ''json'', message = JsonSyntax TypeError, documentIndex = None,
                 logIndex = None, severity = SevError\<rparr>],
      warnings = [],
      summary = \<lparr>totalDocuments = 2, validDocuments = 0, totalLogs = 0, validLogs = 0\<rparr>\<rparr>"
    by (simp add: validateImportJson_def documents_part_def final_result_def catch_parseError_def
        summary0_def validateDocument_def check_url_doc_def check_name_def
        push_warning_def push_error_def example_defs trim_def is_ws_def)
  have p': "JSON_parse platform_date_object text_date_object =
             Some (JObj [(''documents'', JArr [doc_date_object, doc_a_dup]),
                         (''logs'', JArr [log_plain])])"
    by (simp add: platform_date_object_def)
  have g': "get (JObj [(''documents'', JArr [doc_date_object, doc_a_dup]), (''logs'', JArr [log_plain])])
              ''documents'' = JArr [doc_date_object, doc_a_dup]"
    by simp
  have k': "(0::nat) < length [doc_date_object, doc_a_dup]" by simp
  have b': "throwing_entry ([doc_date_object, doc_a_dup] ! 0)"
    by (simp add: throwing_entry_def doc_date_object_def)
  have e': "validateImportJson platform_date_object clock_1 text_date_object =
     \<lparr>isValid = False,
      errors = [\<lparr>field = ''url_doc'', message = DuplicateUrl ''https://ex.com/a.pdf'' [0, 1],
                 documentIndex = None, logIndex = None, severity = SevError\<rparr>,
                \<lparr>field = ''json'', message = JsonSyntax TypeError, documentIndex = None,
                 logIndex = None, severity = SevError\<rparr>],
      warnings = [],
      summary = \<lparr>totalDocuments = 2, validDocuments = 0, totalLogs = 0, validLogs = 0\<rparr>\<rparr>"
    by (simp add: validateImportJson_def platform_date_object_def documents_part_def
        final_result_def catch_parseError_def summary0_def validateDocument_def check_url_doc_def
        check_name_def check_date_edition_def isValidDate_def
        push_warning_def push_error_def example_defs trim_def is_ws_def)
  from validateImportJson_throwing_entry [OF p g k b, of clock_1]
    validateImportJson_throwing_entry [OF p' g' k' b', of clock_1] e e'
  show ?thesis by simp
qed

subsection \<open>C4: the empty batch\<close>

text \<open>
  Claim C4 says that \<^verbatim>\<open>{"documents":[]}\<close> validates with a warning and that its import
  completes with \<^verbatim>\<open>documentsImported=0\<close> and \<^verbatim>\<open>success=true\<close>. The text does validate,
  but neither import path accepts it: \<open>importHarvestResults\<close> returns at its test
  \<^verbatim>\<open>documents.length === 0\<close> with \<^verbatim>\<open>success=false\<close>, and \<open>importHarvestData\<close> stops at
  \<open>validateParsedData\<close>, which reports that no valid document was found.
\<close>

theorem C4_counterexample:
  "isValid (validateImportJson example_platform clock_1 text_empty) \<and>
   importHarvestResults example_platform clock_1 no_later_phases text_empty =
     (\<lparr>upload_success = False, upload_documentsImported = 0, documentsWithErrors = 0,
       upload_logsImported = 0, localPath = [], upload_errors = [NoValidDocumentInJson]\<rparr>,
      [Validation]) \<and>
   fst (importHarvestData example_platform clock_1 all_succeed (JObj [(''documents'', JArr [])])) =
     \<lparr>success = False, documentsImported = 0, obstaclesUpdated = False,
      recommandationsUpdated = False, logsImported = 0,
      result_errors = [NoValidDocument], result_warnings = []\<rparr>"
  by (simp add: importHarvestResults_def validateImportJson_def documents_part_def logs_part_def
      global_checks_def final_result_def summary0_def push_warning_def
      extractValidData_def extractValidData_try_def upload_result0_def
      importHarvestData_def parseOpenAIResponse_def parseStructuredData_def parsed_documents_def parsed_obstacles_def parsed_recommandations_def parsed_logs_def
      validateParsedData_def result0_def
      example_platform_def parsed_texts_def text_empty_def)

text \<open>
  C4 as amended: when \<^verbatim>\<open>JSON.parse\<close> reads the text \<^verbatim>\<open>{"documents":[]}\<close> as the object with
  an empty \<^verbatim>\<open>documents\<close> array, \<open>validateImportJson\<close> returns \<^verbatim>\<open>isValid=true\<close> with no
  error and two warnings (empty \<^verbatim>\<open>documents\<close>, missing \<^verbatim>\<open>logs\<close>), the extractor returns
  the empty result, and the import does not proceed: \<open>importHarvestResults\<close> returns
  \<^verbatim>\<open>success=false\<close>, \<^verbatim>\<open>documentsImported=0\<close> and one error after the validation phase,
  whatever the later phases would do, and \<open>importHarvestData\<close> on the same batch returns
  \<^verbatim>\<open>success=false\<close> with the error of \<open>validateParsedData\<close> and ends in the error phase.
\<close>

theorem empty_batch_valid_but_not_imported:
  assumes "JSON_parse P text_empty = Some (JObj [(''documents'', JArr [])])"
  shows "validateImportJson P c text_empty =
           \<lparr>isValid = True, errors = [],
            warnings = [\<lparr>field = ''documents'', message = DocumentsEmpty, documentIndex = None,
                         logIndex = None, severity = SevWarning\<rparr>,
                        \<lparr>field = ''logs'', message = LogsMissing, documentIndex = None,
                         logIndex = None, severity = SevWarning\<rparr>],
            summary = summary0\<rparr> \<and>
         extractValidData P c text_empty = Inr empty_extracted \<and>
         importHarvestResults P c later_phases text_empty =
           (upload_result0\<lparr>upload_errors := [NoValidDocumentInJson]\<rparr>, [Validation]) \<and>
         importHarvestData P c E (JObj [(''documents'', JArr [])]) =
           (result0\<lparr>result_errors := [NoValidDocument]\<rparr>,
            [snapshot Parsing MsgParsing 10 0 0 [] [],
             snapshot ErrorPhase (MsgValidationFailed (Some NoValidDocument)) 0 0 0 [NoValidDocument] []])"
proof -
  from assms have v: "validateImportJson P c text_empty =
           \<lparr>isValid = True, errors = [],
            warnings = [\<lparr>field = ''documents'', message = DocumentsEmpty, documentIndex = None,
                         logIndex = None, severity = SevWarning\<rparr>,
                        \<lparr>field = ''logs'', message = LogsMissing, documentIndex = None,
                         logIndex = None, severity = SevWarning\<rparr>],
            summary = summary0\<rparr>"
    by (simp add: validateImportJson_def documents_part_def logs_part_def
        global_checks_def final_result_def summary0_def push_warning_def)
  from assms have x: "extractValidData P c text_empty = Inr empty_extracted"
    by (simp add: extractValidData_def extractValidData_try_def empty_extracted_def)
  from v x have u: "importHarvestResults P c later_phases text_empty =
           (upload_result0\<lparr>upload_errors := [NoValidDocumentInJson]\<rparr>, [Validation])"
    by (simp add: importHarvestResults_def empty_extracted_def)
  have i: "importHarvestData P c E (JObj [(''documents'', JArr [])]) =
           (result0\<lparr>result_errors := [NoValidDocument]\<rparr>,
            [snapshot Parsing MsgParsing 10 0 0 [] [],
             snapshot ErrorPhase (MsgValidationFailed (Some NoValidDocument)) 0 0 0 [NoValidDocument] []])"
    by (simp add: importHarvestData_def parseOpenAIResponse_def parseStructuredData_def parsed_documents_def parsed_obstacles_def parsed_recommandations_def parsed_logs_def
        validateParsedData_def result0_def)
  from v x u i show ?thesis by simp
qed

theorem C4_witness:
  "JSON_parse example_platform text_empty = Some (JObj [(''documents'', JArr [])]) \<and>
   isValid (validateImportJson example_platform clock_1 text_empty) \<and>
   upload_success (fst (importHarvestResults example_platform clock_1 no_later_phases text_empty)) = False \<and>
   upload_errors (fst (importHarvestResults example_platform clock_1 no_later_phases text_empty))
     = [NoValidDocumentInJson]"
proof -
  have p: "JSON_parse example_platform text_empty = Some (JObj [(''documents'', JArr [])])"
    by (simp add: example_platform_def parsed_texts_def)
  from empty_batch_valid_but_not_imported [OF p, of clock_1 no_later_phases all_succeed] p
  show ?thesis by (simp add: upload_result0_def)
qed

subsection \<open>C5: an entry with a missing or invalid URL\<close>




subsection \<open>C3: the success flag and the partial-success scenario\<close>



end
